theory Spec2Isabelle
  imports Complex_Main
begin

section \<open>Backtester: a shallow embedding of \<^verbatim>\<open>src/backtest.py\<close>\<close>

text \<open>
  The embedding follows \<^verbatim>\<open>Backtester.load_tickers\<close> and
  \<^verbatim>\<open>Backtester.run_backtest\<close> statement by statement. The pandas and yfinance
  calls of the source are modelled by what they are documented to compute on the
  tables the source hands them.

  Abstractions, stated once:
  \<^item> a price is a float64 of the source. A finite value is modelled as an exact rational
    (rounding, overflow and the sign of zero are not modelled: the zero of the model is
    \<open>+0.0\<close>); the three special values \<open>+inf\<close>, \<open>-inf\<close> and \<open>NaN\<close> are kept, since
    pandas produces them on division by zero instead of raising, and since \<open>NaN\<close> is
    pandas' marker of a missing cell. Where a property depends on the rounding of float64,
    the numeric stages are stated a second time with every operation rounded to binary64
    (the functions whose names end in \<open>64\<close>);
  \<^item> \<^verbatim>\<open>datetime.now()\<close>, the date labels of the rows and the \<open>years\<close> parameter only
    reach the provider call and the printed text, and are left out;
  \<^item> a printed number is the value itself, not its two-decimal rendering.
\<close>

subsection \<open>Float values\<close>

datatype fval = Fin rat | PInf | NInf | NaN

fun fneg :: "fval \<Rightarrow> fval" where
  "fneg (Fin a) = Fin (- a)"
| "fneg PInf = NInf"
| "fneg NInf = PInf"
| "fneg NaN = NaN"

fun fabs :: "fval \<Rightarrow> fval" where
  "fabs (Fin a) = Fin \<bar>a\<bar>"
| "fabs PInf = PInf"
| "fabs NInf = PInf"
| "fabs NaN = NaN"

fun fadd :: "fval \<Rightarrow> fval \<Rightarrow> fval" where
  "fadd NaN _ = NaN"
| "fadd _ NaN = NaN"
| "fadd (Fin a) (Fin b) = Fin (a + b)"
| "fadd (Fin a) PInf = PInf"
| "fadd (Fin a) NInf = NInf"
| "fadd PInf (Fin b) = PInf"
| "fadd NInf (Fin b) = NInf"
| "fadd PInf PInf = PInf"
| "fadd NInf NInf = NInf"
| "fadd PInf NInf = NaN"
| "fadd NInf PInf = NaN"

definition fsub :: "fval \<Rightarrow> fval \<Rightarrow> fval" where
  "fsub a b = fadd a (fneg b)"

text \<open>The sign of an infinite or finite non-zero value; zero is taken as \<open>+0\<close>.\<close>

fun fnegative :: "fval \<Rightarrow> bool" where
  "fnegative (Fin a) = (a < 0)"
| "fnegative NInf = True"
| "fnegative PInf = False"
| "fnegative NaN = False"

definition signed_inf :: "bool \<Rightarrow> fval" where
  "signed_inf neg = (if neg then NInf else PInf)"

fun fmul :: "fval \<Rightarrow> fval \<Rightarrow> fval" where
  "fmul NaN _ = NaN"
| "fmul _ NaN = NaN"
| "fmul (Fin a) (Fin b) = Fin (a * b)"
| "fmul (Fin a) b = (if a = 0 then NaN else signed_inf ((a < 0) \<noteq> fnegative b))"
| "fmul a (Fin b) = (if b = 0 then NaN else signed_inf (fnegative a \<noteq> (b < 0)))"
| "fmul a b = signed_inf (fnegative a \<noteq> fnegative b)"

text \<open>
  Float division of numpy: a zero divisor does not raise. \<open>0 / 0\<close> is \<open>NaN\<close>, and a
  non-zero value over zero is the infinity of its sign.
\<close>

fun fdiv :: "fval \<Rightarrow> fval \<Rightarrow> fval" where
  "fdiv NaN _ = NaN"
| "fdiv _ NaN = NaN"
| "fdiv (Fin a) (Fin b) =
     (if b = 0 then (if a = 0 then NaN else signed_inf (a < 0)) else Fin (a / b))"
| "fdiv (Fin a) b = Fin 0"
| "fdiv a (Fin b) = signed_inf (fnegative a \<noteq> (b < 0))"
| "fdiv a b = NaN"

text \<open>The comparison \<open>a > b\<close> on floats: false as soon as one side is \<open>NaN\<close>.\<close>

fun fgt :: "fval \<Rightarrow> fval \<Rightarrow> bool" where
  "fgt NaN _ = False"
| "fgt _ NaN = False"
| "fgt (Fin a) (Fin b) = (a > b)"
| "fgt PInf b = (b \<noteq> PInf)"
| "fgt a NInf = (a \<noteq> NInf)"
| "fgt a b = False"

definition fsum :: "fval list \<Rightarrow> fval" where
  "fsum xs = foldl fadd (Fin 0) xs"

text \<open>
  \<^verbatim>\<open>mean\<close> of pandas with its default \<^verbatim>\<open>skipna=True\<close>: the sum of the entries that
  are not \<open>NaN\<close> over their number, and \<open>NaN\<close> when there is none.
\<close>

definition nanmean :: "fval list \<Rightarrow> fval" where
  "nanmean xs =
     (let ys = filter (\<lambda>v. v \<noteq> NaN) xs
      in if ys = [] then NaN else fdiv (fsum ys) (Fin (of_nat (length ys))))"

subsection \<open>Tables\<close>

type_synonym series = "fval list"

text \<open>
  A \<^verbatim>\<open>DataFrame\<close> whose columns are labelled by symbols: the number of its rows (the
  date index) and its columns in order, each with one value per row.
\<close>

record frame =
  nrows :: nat
  columns :: "(string \<times> series) list"

text \<open>A table is rectangular, as every pandas table is: each column holds one value per row.\<close>

definition wf_frame :: "frame \<Rightarrow> bool" where
  "wf_frame d = list_all (\<lambda>c. length (snd c) = nrows d) (columns d)"

definition column_labels :: "frame \<Rightarrow> string list" where
  "column_labels d = map fst (columns d)"

subsection \<open>Cleaning (lines 79 to 84)\<close>

text \<open>\<^verbatim>\<open>data.dropna(axis=1, how='all')\<close>: a column stays when it has a value that is not \<open>NaN\<close>.\<close>

definition has_data :: "series \<Rightarrow> bool" where
  "has_data s = list_ex (\<lambda>v. v \<noteq> NaN) s"

definition dropna_all :: "frame \<Rightarrow> frame" where
  "dropna_all d = d\<lparr>columns := filter (\<lambda>c. has_data (snd c)) (columns d)\<rparr>"

text \<open>\<^verbatim>\<open>ffill\<close>: a missing cell takes the last value seen above it, when there is one.\<close>

fun ffill_from :: "fval \<Rightarrow> series \<Rightarrow> series" where
  "ffill_from prev [] = []"
| "ffill_from prev (v # vs) =
     (if v = NaN then prev # ffill_from prev vs else v # ffill_from v vs)"

definition ffill_series :: "series \<Rightarrow> series" where
  "ffill_series s = ffill_from NaN s"

text \<open>\<^verbatim>\<open>bfill\<close>: a missing cell takes the next value below it, when there is one.\<close>

fun bfill_series :: "series \<Rightarrow> series" where
  "bfill_series [] = []"
| "bfill_series (v # vs) =
     (let r = bfill_series vs
      in (if v = NaN then (case r of [] \<Rightarrow> NaN | w # _ \<Rightarrow> w) else v) # r)"

definition ffill :: "frame \<Rightarrow> frame" where
  "ffill d = d\<lparr>columns := map (\<lambda>c. (fst c, ffill_series (snd c))) (columns d)\<rparr>"

definition bfill :: "frame \<Rightarrow> frame" where
  "bfill d = d\<lparr>columns := map (\<lambda>c. (fst c, bfill_series (snd c))) (columns d)\<rparr>"

definition clean_data :: "frame \<Rightarrow> frame" where
  "clean_data d = bfill (ffill (dropna_all d))"

subsection \<open>Errors, printed messages and effects\<close>

datatype py_error = FileNotFoundError | IndexError | KeyError | ValueError | OtherException

text \<open>One constructor per \<^verbatim>\<open>print\<close> statement of the source, in source order.\<close>

datatype msg =
    ErrNoTickerColumn
  | ErrFileNotFound
  | WarnNoTickers
  | Banner
  | TestingOn "string list"
  | ErrDownload
  | ErrNoData
  | NoteUsingClose
  | ErrNoPriceColumn
  | ErrNormalization
  | ErrNoValidData
  | WarnBenchmarkMissing
  | ResultsHeader
  | Timeframe
  | StrategyReturn fval
  | BenchmarkReturn fval
  | Success fval
  | Underperformance fval
  | ChartSaved

text \<open>
  What a run does to the outside, in order: a printed line, the call of the provider with
  the symbols asked for, and the chart written by \<^verbatim>\<open>plt.savefig\<close> with the series
  plotted on it (the strategy, and the benchmark when there is one).
\<close>

datatype event =
    Print msg
  | Download "string list"
  | SaveFig series "series option"

text \<open>How a call ends: it returns, or an exception leaves it uncaught.\<close>

datatype status = Returned | Raised py_error

subsection \<open>Loading the ticker list (lines 12 to 25)\<close>

text \<open>
  What \<^verbatim>\<open>pd.read_csv\<close> does on the path: the file is missing, reading fails with
  another exception, or a table comes back, its columns under their header names.
\<close>

datatype csv_read = FileNotFound | ReadFailed | Csv "(string \<times> string list) list"

definition tolist :: "(string \<times> string list) list \<Rightarrow> string \<Rightarrow> string list" where
  "tolist df name = (case map_of df name of None \<Rightarrow> [] | Some cells \<Rightarrow> cells)"

definition load_tickers :: "csv_read \<Rightarrow> event list \<times> (py_error + string list)" where
  "load_tickers r =
     (case r of
        FileNotFound \<Rightarrow> ([Print ErrFileNotFound], Inr [])
      | ReadFailed \<Rightarrow> ([], Inl OtherException)
      | Csv df \<Rightarrow>
          if ''ticker'' \<in> set (map fst df) then ([], Inr (tolist df ''ticker''))
          else if ''Ticker'' \<in> set (map fst df) then ([], Inr (tolist df ''Ticker''))
          else ([Print ErrNoTickerColumn], Inr []))"

subsection \<open>The fetched table and the price field (lines 41 to 77)\<close>

text \<open>
  The table of the provider has its number of rows and its columns, which are either
  layered (\<^verbatim>\<open>MultiIndex\<close>: a price field and a symbol for each column) or flat (a
  field name for each column).
\<close>

datatype raw_table =
    Layered nat "((string \<times> string) \<times> series) list"
  | Flat nat "(string \<times> series) list"

datatype fetch_result = FetchRaised | Fetched raw_table

text \<open>\<^verbatim>\<open>data_raw.empty\<close>: no row or no column.\<close>

fun raw_empty :: "raw_table \<Rightarrow> bool" where
  "raw_empty (Layered n cols) = (n = 0 \<or> cols = [])"
| "raw_empty (Flat n cols) = (n = 0 \<or> cols = [])"

definition select_price_column :: "raw_table \<Rightarrow> event list \<times> string option" where
  "select_price_column data_raw =
     (case data_raw of
        Layered n cols \<Rightarrow>
          if ''Adj Close'' \<in> set (map (\<lambda>c. fst (fst c)) cols) then ([], Some ''Adj Close'')
          else if ''Close'' \<in> set (map (\<lambda>c. fst (fst c)) cols)
            then ([Print NoteUsingClose], Some ''Close'')
          else ([], None)
      | Flat n cols \<Rightarrow>
          if ''Adj Close'' \<in> set (map fst cols) then ([], Some ''Adj Close'')
          else if ''Close'' \<in> set (map fst cols) then ([Print NoteUsingClose], Some ''Close'')
          else ([], None))"

text \<open>
  \<^verbatim>\<open>data_raw[target_col]\<close>: on layered columns the table of the symbols under that
  field, on flat columns the one series of that name.
\<close>

datatype pdobj = DataFrame frame | Series series

definition field_frame :: "nat \<Rightarrow> ((string \<times> string) \<times> series) list \<Rightarrow> string \<Rightarrow> frame" where
  "field_frame n cols field =
     \<lparr>nrows = n, columns = map (\<lambda>c. (snd (fst c), snd c)) (filter (\<lambda>c. fst (fst c) = field) cols)\<rparr>"

fun getitem :: "raw_table \<Rightarrow> string \<Rightarrow> py_error + pdobj" where
  "getitem (Layered n cols) field = Inr (DataFrame (field_frame n cols field))"
| "getitem (Flat n cols) field =
     (case map_of cols field of None \<Rightarrow> Inl KeyError | Some s \<Rightarrow> Inr (Series s))"

text \<open>
  \<^verbatim>\<open>data.dropna(axis=1, how='all')\<close> on what was extracted. A \<^verbatim>\<open>Series\<close> has no
  axis 1: pandas raises \<^verbatim>\<open>ValueError\<close> there, and the source does not catch it.
\<close>

fun dropna_axis1 :: "pdobj \<Rightarrow> py_error + frame" where
  "dropna_axis1 (DataFrame d) = Inr (dropna_all d)"
| "dropna_axis1 (Series s) = Inl ValueError"

subsection \<open>Normalization (lines 86 to 91)\<close>

text \<open>
  \<^verbatim>\<open>(data / data.iloc[0]) * 100\<close>: every column over its own first-row value, times
  100. \<^verbatim>\<open>iloc[0]\<close> raises \<^verbatim>\<open>IndexError\<close> on a table without rows; the division
  itself never raises.
\<close>

definition normalize_series :: "series \<Rightarrow> series" where
  "normalize_series s =
     (case s of [] \<Rightarrow> [] | v0 # _ \<Rightarrow> map (\<lambda>v. fmul (fdiv v v0) (Fin 100)) s)"

text \<open>The table \<^verbatim>\<open>(data / first_row) * 100\<close>, and the statement with its \<^verbatim>\<open>iloc[0]\<close>.\<close>

definition normalized :: "frame \<Rightarrow> frame" where
  "normalized data =
     data\<lparr>columns := map (\<lambda>c. (fst c, normalize_series (snd c))) (columns data)\<rparr>"

definition normalize :: "frame \<Rightarrow> py_error + frame" where
  "normalize data = (if nrows data = 0 then Inl IndexError else Inr (normalized data))"

subsection \<open>Simulation, comparison and report (lines 93 to 142)\<close>

definition valid_tickers :: "string list \<Rightarrow> frame \<Rightarrow> string list" where
  "valid_tickers tickers data = filter (\<lambda>t. t \<in> set (column_labels data)) tickers"

text \<open>\<^verbatim>\<open>normalized_data[valid_tickers]\<close>: for each label asked for, in order, the columns under it.\<close>

definition select_columns :: "string list \<Rightarrow> frame \<Rightarrow> frame" where
  "select_columns labels d =
     d\<lparr>columns := concat (map (\<lambda>t. filter (\<lambda>c. fst c = t) (columns d)) labels)\<rparr>"

text \<open>\<^verbatim>\<open>.mean(axis=1)\<close>: for each row, the mean over the columns.\<close>

definition row_at :: "frame \<Rightarrow> nat \<Rightarrow> fval list" where
  "row_at d i = map (\<lambda>c. snd c ! i) (columns d)"

definition mean_axis1 :: "frame \<Rightarrow> series" where
  "mean_axis1 d = map (\<lambda>i. nanmean (row_at d i)) [0..<nrows d]"

definition strategy_series :: "string list \<Rightarrow> frame \<Rightarrow> frame \<Rightarrow> series" where
  "strategy_series tickers data normalized_data =
     mean_axis1 (select_columns (valid_tickers tickers data) normalized_data)"

definition benchmark_series :: "frame \<Rightarrow> series option" where
  "benchmark_series normalized_data =
     (if ''^NSEI'' \<in> set (column_labels normalized_data)
      then map_of (columns normalized_data) ''^NSEI'' else None)"

text \<open>\<^verbatim>\<open>.iloc[-1]\<close>: the last entry, \<^verbatim>\<open>IndexError\<close> when there is none.\<close>

definition iloc_last :: "series \<Rightarrow> py_error + fval" where
  "iloc_last s = (if s = [] then Inl IndexError else Inr (last s))"

text \<open>Lines 118 to 125: the benchmark's return, the difference and the verdict.\<close>

definition report_comparison :: "fval \<Rightarrow> fval \<Rightarrow> event list" where
  "report_comparison strategy_return benchmark_return =
     (let diff = fsub strategy_return benchmark_return
      in [Print (BenchmarkReturn benchmark_return),
          if fgt strategy_return benchmark_return then Print (Success diff)
          else Print (Underperformance (fabs diff))])"

text \<open>Lines 127 to 142: the plot and the file written.\<close>

definition plot_chart :: "series \<Rightarrow> series option \<Rightarrow> event list" where
  "plot_chart strategy_col benchmark_col = [SaveFig strategy_col benchmark_col, Print ChartSaved]"

text \<open>Lines 93 to 142, once the data is cleaned and normalized.\<close>

definition simulate :: "string list \<Rightarrow> frame \<Rightarrow> frame \<Rightarrow> event list \<times> status" where
  "simulate tickers data normalized_data =
     (if valid_tickers tickers data = [] then ([Print ErrNoValidData], Returned)
      else
        let strategy_col = strategy_series tickers data normalized_data;
            benchmark_col = benchmark_series normalized_data;
            ev1 = (if benchmark_col = None then [Print WarnBenchmarkMissing] else [])
        in case iloc_last strategy_col of
             Inl e \<Rightarrow> (ev1, Raised e)
           | Inr last_value \<Rightarrow>
               let strategy_return = fsub last_value (Fin 100);
                   ev2 = ev1 @ [Print ResultsHeader, Print Timeframe,
                                Print (StrategyReturn strategy_return)]
               in case benchmark_col of
                    None \<Rightarrow> (ev2 @ plot_chart strategy_col None, Returned)
                  | Some b \<Rightarrow>
                      (case iloc_last b of
                         Inl e \<Rightarrow> (ev2, Raised e)
                       | Inr last_b \<Rightarrow>
                           (ev2 @ report_comparison strategy_return (fsub last_b (Fin 100))
                              @ plot_chart strategy_col (Some b), Returned)))"

subsection \<open>The pipeline (lines 27 to 142)\<close>

text \<open>Lines 52 to 142: what happens to a fetched table that is not empty.\<close>

definition process :: "string list \<Rightarrow> raw_table \<Rightarrow> event list \<times> status" where
  "process tickers data_raw =
     (case select_price_column data_raw of
        (adv, None) \<Rightarrow> (adv @ [Print ErrNoPriceColumn], Returned)
      | (adv, Some target_col) \<Rightarrow>
          (case getitem data_raw target_col of
             Inl e \<Rightarrow> (adv, Raised e)
           | Inr extracted \<Rightarrow>
               (case dropna_axis1 extracted of
                  Inl e \<Rightarrow> (adv, Raised e)
                | Inr dropped \<Rightarrow>
                    let data = bfill (ffill dropped)
                    in (case normalize data of
                          Inl e \<Rightarrow> (adv @ [Print ErrNormalization], Returned)
                        | Inr normalized_data \<Rightarrow>
                            (let (ev, st) = simulate tickers data normalized_data
                             in (adv @ ev, st))))))"

text \<open>
  \<^verbatim>\<open>run_backtest\<close>, with the provider as a parameter: \<open>download\<close> is what
  \<^verbatim>\<open>yf.download\<close> answers for a list of symbols.
\<close>

definition run_backtest :: "(string list \<Rightarrow> fetch_result) \<Rightarrow> string list \<Rightarrow> event list \<times> status" where
  "run_backtest download tickers =
     (if tickers = [] then ([Print WarnNoTickers], Returned)
      else
        let tickers_with_benchmark = tickers @ [''^NSEI''];
            ev0 = [Print Banner, Print (TestingOn (take 5 tickers)),
                   Download tickers_with_benchmark]
        in case download tickers_with_benchmark of
             FetchRaised \<Rightarrow> (ev0 @ [Print ErrDownload], Returned)
           | Fetched data_raw \<Rightarrow>
               if raw_empty data_raw then (ev0 @ [Print ErrNoData], Returned)
               else (let (ev, st) = process tickers data_raw in (ev0 @ ev, st)))"

text \<open>The script: \<^verbatim>\<open>bt = Backtester(path)\<close>, which loads the tickers, then \<^verbatim>\<open>bt.run_backtest()\<close>.\<close>

record env =
  csv_file :: csv_read
  provider :: "string list \<Rightarrow> fetch_result"

definition backtest_main :: "env \<Rightarrow> event list \<times> status" where
  "backtest_main e =
     (case load_tickers (csv_file e) of
        (ev, Inl err) \<Rightarrow> (ev, Raised err)
      | (ev, Inr tickers) \<Rightarrow>
          (let (ev', st) = run_backtest (provider e) tickers in (ev @ ev', st)))"

subsection \<open>The numeric stages in binary64\<close>

text \<open>
  Rounding to float64: the nearest value with a significand of 53 bits, ties to the even
  significand, gradual underflow below \<open>2^-1022\<close> and overflow to infinity from
  \<open>2^1024\<close>. \<open>halve\<close> and \<open>double\<close> find the binary exponent of a positive number.
\<close>

definition pow2 :: "int \<Rightarrow> rat" where
  "pow2 e = (if 0 \<le> e then 2 ^ nat e else 1 / 2 ^ nat (- e))"

function halve :: "rat \<Rightarrow> int \<Rightarrow> int" where
  "halve x e = (if 2 \<le> x then halve (x / 2) (e + 1) else e)"
  by pat_completeness auto
termination
proof (relation "measure (\<lambda>(x, e). nat \<lfloor>x\<rfloor>)")
  show "wf (measure (\<lambda>(x, e). nat \<lfloor>x\<rfloor>))" by simp
next
  fix x :: rat and e :: int
  assume x: "2 \<le> x"
  then have pos: "2 \<le> \<lfloor>x\<rfloor>" by (simp add: le_floor_iff)
  have "x / 2 < of_int \<lfloor>x\<rfloor>"
  proof -
    have "x < of_int \<lfloor>x\<rfloor> + 1" by linarith
    moreover from pos have "(2 :: rat) \<le> of_int \<lfloor>x\<rfloor>" by linarith
    ultimately show ?thesis by linarith
  qed
  then have "\<lfloor>x / 2\<rfloor> < \<lfloor>x\<rfloor>" by (simp add: floor_less_iff)
  with pos have "nat \<lfloor>x / 2\<rfloor> < nat \<lfloor>x\<rfloor>" by linarith
  then show "((x / 2, e + 1), (x, e)) \<in> measure (\<lambda>(x, e). nat \<lfloor>x\<rfloor>)"
    by (simp only: in_measure prod.case)
qed

function double :: "rat \<Rightarrow> int \<Rightarrow> int" where
  "double x e = (if 0 < x \<and> x < 1 then double (x * 2) (e - 1) else e)"
  by pat_completeness auto
termination
proof (relation "measure (\<lambda>(x, e). nat \<lfloor>1 / x\<rfloor>)")
  show "wf (measure (\<lambda>(x, e). nat \<lfloor>1 / x\<rfloor>))" by simp
next
  fix x :: rat and e :: int
  assume x: "0 < x \<and> x < 1"
  define y where "y = 1 / x"
  from x have one: "1 \<le> y" by (simp add: y_def)
  then have pos: "1 \<le> \<lfloor>y\<rfloor>" by (simp add: le_floor_iff)
  have "y / 2 < of_int \<lfloor>y\<rfloor>"
  proof (rule ccontr)
    assume "\<not> y / 2 < of_int \<lfloor>y\<rfloor>"
    then have le: "of_int \<lfloor>y\<rfloor> \<le> y / 2" by simp
    have "y < of_int \<lfloor>y\<rfloor> + 1" by linarith
    with le have "y < 2" by linarith
    with le have "(of_int \<lfloor>y\<rfloor> :: rat) < 1" by linarith
    with pos show False by simp
  qed
  then have "\<lfloor>y / 2\<rfloor> < \<lfloor>y\<rfloor>" by (simp add: floor_less_iff)
  moreover have "1 / (x * 2) = y / 2" by (simp add: y_def)
  ultimately have "\<lfloor>1 / (x * 2)\<rfloor> < \<lfloor>y\<rfloor>" by (simp only:)
  with pos have "nat \<lfloor>1 / (x * 2)\<rfloor> < nat \<lfloor>y\<rfloor>" by linarith
  then show "((x * 2, e - 1), (x, e)) \<in> measure (\<lambda>(x, e). nat \<lfloor>1 / x\<rfloor>)"
    by (simp only: in_measure prod.case y_def)
qed

definition exponent_of :: "rat \<Rightarrow> int" where
  "exponent_of x = (if 1 \<le> \<bar>x\<bar> then halve \<bar>x\<bar> 0 else double \<bar>x\<bar> 0)"

definition round_half_even :: "rat \<Rightarrow> int" where
  "round_half_even q =
     (let f = \<lfloor>q\<rfloor>; r = q - of_int f
      in if r < 1 / 2 then f else if 1 / 2 < r then f + 1 else if even f then f else f + 1)"

definition binary64 :: "rat \<Rightarrow> fval" where
  "binary64 x =
     (if x = 0 then Fin 0
      else
        let e = max (exponent_of x) (- 1022);
            ulp = pow2 (e - 52);
            y = of_int (round_half_even (x / ulp)) * ulp
        in if pow2 1024 \<le> \<bar>y\<bar> then signed_inf (y < 0) else Fin y)"

fun fround :: "fval \<Rightarrow> fval" where
  "fround (Fin x) = binary64 x"
| "fround v = v"

text \<open>An operation of float64 is the exact operation, rounded.\<close>

definition fdiv64 :: "fval \<Rightarrow> fval \<Rightarrow> fval" where
  "fdiv64 a b = fround (fdiv a b)"

definition fmul64 :: "fval \<Rightarrow> fval \<Rightarrow> fval" where
  "fmul64 a b = fround (fmul a b)"

definition fadd64 :: "fval \<Rightarrow> fval \<Rightarrow> fval" where
  "fadd64 a b = fround (fadd a b)"

definition fsub64 :: "fval \<Rightarrow> fval \<Rightarrow> fval" where
  "fsub64 a b = fround (fsub a b)"

text \<open>
  Line 88, line 102 and the subtractions of lines 111, 118 and 121 with these operations.
  The mean adds the entries from left to right; the order in which numpy adds them is not
  fixed by the source and makes no difference for one or two entries.
\<close>

definition normalize_series64 :: "series \<Rightarrow> series" where
  "normalize_series64 s =
     (case s of [] \<Rightarrow> [] | v0 # _ \<Rightarrow> map (\<lambda>v. fmul64 (fdiv64 v v0) (Fin 100)) s)"

definition normalized64 :: "frame \<Rightarrow> frame" where
  "normalized64 data =
     data\<lparr>columns := map (\<lambda>c. (fst c, normalize_series64 (snd c))) (columns data)\<rparr>"

definition nanmean64 :: "fval list \<Rightarrow> fval" where
  "nanmean64 xs =
     (let ys = filter (\<lambda>v. v \<noteq> NaN) xs
      in if ys = [] then NaN
         else fdiv64 (foldl fadd64 (Fin 0) ys) (Fin (of_nat (length ys))))"

definition strategy_series64 :: "string list \<Rightarrow> frame \<Rightarrow> frame \<Rightarrow> series" where
  "strategy_series64 tickers data normalized_data =
     map (\<lambda>i. nanmean64 (row_at (select_columns (valid_tickers tickers data) normalized_data) i))
       [0..<nrows normalized_data]"

subsection \<open>Observations on a run\<close>

fun is_chart :: "event \<Rightarrow> bool" where
  "is_chart (SaveFig s b) = True"
| "is_chart _ = False"

fun is_download :: "event \<Rightarrow> bool" where
  "is_download (Download ts) = True"
| "is_download _ = False"

fun is_result :: "event \<Rightarrow> bool" where
  "is_result (Print ResultsHeader) = True"
| "is_result (Print Timeframe) = True"
| "is_result (Print (StrategyReturn v)) = True"
| "is_result (Print (BenchmarkReturn v)) = True"
| "is_result (Print (Success v)) = True"
| "is_result (Print (Underperformance v)) = True"
| "is_result _ = False"

text \<open>A run that wrote no chart and reported no result.\<close>

definition no_output :: "event list \<Rightarrow> bool" where
  "no_output evs = (\<not> list_ex is_chart evs \<and> \<not> list_ex is_result evs)"

text \<open>
  A run that halts on a diagnosed failure: it returns, the last line it printed is the
  diagnostic, and it wrote no chart and reported no result.
\<close>

definition halts_with :: "msg \<Rightarrow> event list \<times> status \<Rightarrow> bool" where
  "halts_with m r =
     (snd r = Returned \<and> fst r \<noteq> [] \<and> last (fst r) = Print m \<and> no_output (fst r))"

text \<open>The strategy series plotted and the strategy returns printed by a run.\<close>

fun plotted_strategy :: "event list \<Rightarrow> series list" where
  "plotted_strategy [] = []"
| "plotted_strategy (SaveFig s b # evs) = s # plotted_strategy evs"
| "plotted_strategy (e # evs) = plotted_strategy evs"

fun printed_strategy_return :: "event list \<Rightarrow> fval list" where
  "printed_strategy_return [] = []"
| "printed_strategy_return (Print (StrategyReturn v) # evs) = v # printed_strategy_return evs"
| "printed_strategy_return (e # evs) = printed_strategy_return evs"

text \<open>The field names of a fetched table, whatever its shape.\<close>

fun raw_fields :: "raw_table \<Rightarrow> string list" where
  "raw_fields (Layered n cols) = map (\<lambda>c. fst (fst c)) cols"
| "raw_fields (Flat n cols) = map fst cols"

text \<open>
  The columns of two layered tables that differ only in the prices of the benchmark: the
  same labels in the same order, and the same series under every other symbol.
\<close>

definition differ_only_in_benchmark ::
  "((string \<times> string) \<times> series) list \<Rightarrow> ((string \<times> string) \<times> series) list \<Rightarrow> bool" where
  "differ_only_in_benchmark cols1 cols2 =
     list_all2 (\<lambda>c1 c2. fst c1 = fst c2 \<and> (snd (fst c1) \<noteq> ''^NSEI'' \<longrightarrow> snd c1 = snd c2))
       cols1 cols2"

text \<open>The columns of a table other than the benchmark's.\<close>

definition without_benchmark :: "(string \<times> series) list \<Rightarrow> (string \<times> series) list" where
  "without_benchmark xs = filter (\<lambda>c. fst c \<noteq> ''^NSEI'') xs"

text \<open>
  The normalized price of a symbol at a date, read off a cleaned table whose labels are
  distinct: the price over the first price of the symbol, times 100.
\<close>

definition normalized_price :: "frame \<Rightarrow> string \<Rightarrow> nat \<Rightarrow> fval" where
  "normalized_price data t i =
     (case map_of (columns data) t of
        None \<Rightarrow> NaN
      | Some s \<Rightarrow> fmul (fdiv (s ! i) (s ! 0)) (Fin 100))"

text \<open>
  The strategy series that a run on a layered table computes, when it gets as far as
  computing one.
\<close>

definition strategy_of_table ::
  "string list \<Rightarrow> nat \<Rightarrow> ((string \<times> string) \<times> series) list \<Rightarrow> series option" where
  "strategy_of_table tickers n cols =
     (if tickers = [] \<or> raw_empty (Layered n cols) then None
      else case snd (select_price_column (Layered n cols)) of
             None \<Rightarrow> None
           | Some f \<Rightarrow>
               (let data = clean_data (field_frame n cols f)
                in if valid_tickers tickers data = [] then None
                   else Some (strategy_series tickers data (normalized data))))"

subsection \<open>The specification's mean\<close>

text \<open>
  The arithmetic mean in the specification's words: the sum of all the entries over
  their number, no entry left out.
\<close>

definition arith_mean :: "fval list \<Rightarrow> fval" where
  "arith_mean xs = fdiv (fsum xs) (Fin (of_nat (length xs)))"

text \<open>
  The strategy series in the specification's words: for each date, the arithmetic mean of
  the normalized series across the candidate symbols present in the cleaned table.
\<close>

definition spec_strategy_series :: "string list \<Rightarrow> frame \<Rightarrow> frame \<Rightarrow> series" where
  "spec_strategy_series tickers data normalized_data =
     map (\<lambda>i. arith_mean (row_at (select_columns (valid_tickers tickers data) normalized_data) i))
       [0..<nrows normalized_data]"

subsection \<open>Concrete inputs\<close>

text \<open>The scenario of the specification: two candidates and the benchmark over two dates.\<close>

definition scenario_cols :: "((string \<times> string) \<times> series) list" where
  "scenario_cols =
     [((''Adj Close'', ''AAA''), [Fin 100, Fin 110]),
      ((''Adj Close'', ''BBB''), [Fin 50, Fin 60]),
      ((''Adj Close'', ''^NSEI''), [Fin 200, Fin 190])]"

definition scenario_raw :: raw_table where
  "scenario_raw = Layered 2 scenario_cols"

definition scenario_provider :: "string list \<Rightarrow> fetch_result" where
  "scenario_provider symbols =
     (if symbols = [''AAA'', ''BBB'', ''^NSEI''] then Fetched scenario_raw else FetchRaised)"

text \<open>A selected table with gaps: a leading gap, an interior gap and a symbol without data.\<close>

definition gappy_table :: frame where
  "gappy_table = \<lparr>nrows = 3, columns =
     [(''AAA'', [NaN, Fin 10, Fin 11]),
      (''BBB'', [Fin 5, NaN, NaN]),
      (''CCC'', [NaN, NaN, NaN])]\<rparr>"

text \<open>A run in which both returns are equal: one candidate and the benchmark both gain 10.\<close>

definition tie_provider :: "string list \<Rightarrow> fetch_result" where
  "tie_provider symbols = Fetched (Layered 2
     [((''Close'', ''AAA''), [Fin 100, Fin 110]),
      ((''Close'', ''^NSEI''), [Fin 200, Fin 220])])"

text \<open>A flat table with the raw close only, and a layered table with neither price field.\<close>

definition flat_close_raw :: raw_table where
  "flat_close_raw = Flat 2 [(''Open'', [Fin 99, Fin 101]), (''Close'', [Fin 100, Fin 110])]"

definition flat_close_provider :: "string list \<Rightarrow> fetch_result" where
  "flat_close_provider symbols = Fetched flat_close_raw"

definition open_only_raw :: raw_table where
  "open_only_raw = Layered 2
     [((''Open'', ''AAA''), [Fin 99, Fin 101]), ((''Open'', ''^NSEI''), [Fin 200, Fin 190])]"

definition open_only_provider :: "string list \<Rightarrow> fetch_result" where
  "open_only_provider symbols = Fetched open_only_raw"

text \<open>Inputs on which the pipeline fails: one for each fatal condition.\<close>

definition env_missing_file :: env where
  "env_missing_file = \<lparr>csv_file = FileNotFound, provider = scenario_provider\<rparr>"

definition env_no_ticker_column :: env where
  "env_no_ticker_column =
     \<lparr>csv_file = Csv [(''symbol'', [''AAA'', ''BBB''])], provider = scenario_provider\<rparr>"

definition failing_provider :: "string list \<Rightarrow> fetch_result" where
  "failing_provider symbols = FetchRaised"

definition empty_provider :: "string list \<Rightarrow> fetch_result" where
  "empty_provider symbols = Fetched (Layered 0 [])"

definition no_data_cols :: "((string \<times> string) \<times> series) list" where
  "no_data_cols =
     [((''Close'', ''AAA''), [NaN, NaN]), ((''Close'', ''^NSEI''), [Fin 200, Fin 190])]"

definition no_data_provider :: "string list \<Rightarrow> fetch_result" where
  "no_data_provider symbols = Fetched (Layered 2 no_data_cols)"

text \<open>The cleaned table of the scenario, and a ticker file that names a symbol twice.\<close>

definition scenario_data :: frame where
  "scenario_data = clean_data (field_frame 2 scenario_cols ''Adj Close'')"

definition duplicate_csv :: csv_read where
  "duplicate_csv = Csv [(''Ticker'', [''AAA'', ''BBB'', ''AAA'']), (''score'', [''9'', ''8'', ''9''])]"

definition env_duplicates :: env where
  "env_duplicates = \<lparr>csv_file = duplicate_csv, provider = failing_provider\<rparr>"



definition all_zero_cols :: "((string \<times> string) \<times> series) list" where
  "all_zero_cols =
     [((''Close'', ''AAA''), [Fin 0, Fin 0]),
      ((''Close'', ''BBB''), [Fin 50, Fin 60]),
      ((''Close'', ''^NSEI''), [Fin 200, Fin 190])]"

definition all_zero_provider :: "string list \<Rightarrow> fetch_result" where
  "all_zero_provider symbols = Fetched (Layered 2 all_zero_cols)"


definition all_zero_data :: frame where
  "all_zero_data = clean_data (field_frame 2 all_zero_cols ''Close'')"

text \<open>The scenario with other benchmark prices.\<close>

definition scenario_cols_alt :: "((string \<times> string) \<times> series) list" where
  "scenario_cols_alt =
     [((''Adj Close'', ''AAA''), [Fin 100, Fin 110]),
      ((''Adj Close'', ''BBB''), [Fin 50, Fin 60]),
      ((''Adj Close'', ''^NSEI''), [Fin 200, Fin 260])]"

definition scenario_provider_alt :: "string list \<Rightarrow> fetch_result" where
  "scenario_provider_alt symbols = Fetched (Layered 2 scenario_cols_alt)"

section \<open>Properties\<close>

lemmas pipeline_defs =
  run_backtest_def process_def select_price_column_def field_frame_def dropna_all_def
  has_data_def ffill_def bfill_def ffill_series_def normalize_def normalized_def
  normalize_series_def
  simulate_def valid_tickers_def column_labels_def strategy_series_def select_columns_def
  mean_axis1_def row_at_def nanmean_def fsum_def benchmark_series_def iloc_last_def
  report_comparison_def plot_chart_def fsub_def clean_data_def

subsection \<open>The structure of a run\<close>

lemma process_flat:
  "process tickers (Flat n cols) =
     (case select_price_column (Flat n cols) of
        (adv, None) \<Rightarrow> (adv @ [Print ErrNoPriceColumn], Returned)
      | (adv, Some f) \<Rightarrow> (adv, Raised ValueError))"
proof -
  have "map_of cols f = None \<longleftrightarrow> f \<notin> set (map fst cols)" for f
    by (simp add: map_of_eq_None_iff)
  then show ?thesis
    by (simp add: process_def select_price_column_def split: option.splits)
qed

lemma process_layered:
  "process tickers (Layered n cols) =
     (case select_price_column (Layered n cols) of
        (adv, None) \<Rightarrow> (adv @ [Print ErrNoPriceColumn], Returned)
      | (adv, Some f) \<Rightarrow>
          (case normalize (clean_data (field_frame n cols f)) of
             Inl e \<Rightarrow> (adv @ [Print ErrNormalization], Returned)
           | Inr nd \<Rightarrow>
               (adv @ fst (simulate tickers (clean_data (field_frame n cols f)) nd),
                snd (simulate tickers (clean_data (field_frame n cols f)) nd))))"
  by (simp add: process_def clean_data_def Let_def split: prod.splits option.splits sum.splits)

lemma select_price_column_advisory:
  "select_price_column raw = (adv, r) \<Longrightarrow> adv = [] \<or> adv = [Print NoteUsingClose]"
  by (auto simp: select_price_column_def split: raw_table.splits if_splits)

lemma simulate_events:
  assumes "Print (StrategyReturn sr) \<in> set (fst (simulate tickers d nd))"
      and "Print (BenchmarkReturn br) \<in> set (fst (simulate tickers d nd))"
  shows "\<exists>s b. fst (simulate tickers d nd) =
            [Print ResultsHeader, Print Timeframe, Print (StrategyReturn sr)]
                 @ report_comparison sr br @ plot_chart s (Some b)"
  using assms
  by (auto simp: simulate_def Let_def report_comparison_def plot_chart_def
           split: if_splits sum.splits option.splits)

lemma run_backtest_output:
  assumes "\<not> no_output (fst (run_backtest download tickers))"
  shows "\<exists>n cols adv f nd.
           tickers \<noteq> [] \<and> download (tickers @ [''^NSEI'']) = Fetched (Layered n cols)
         \<and> \<not> raw_empty (Layered n cols)
         \<and> select_price_column (Layered n cols) = (adv, Some f)
         \<and> normalize (clean_data (field_frame n cols f)) = Inr nd
         \<and> run_backtest download tickers =
             ([Print Banner, Print (TestingOn (take 5 tickers)), Download (tickers @ [''^NSEI''])]
                @ adv @ fst (simulate tickers (clean_data (field_frame n cols f)) nd),
              snd (simulate tickers (clean_data (field_frame n cols f)) nd))"
proof -
  from assms have t: "tickers \<noteq> []"
    by (auto simp: run_backtest_def no_output_def)
  from assms t obtain raw where f: "download (tickers @ [''^NSEI'']) = Fetched raw"
    by (cases "download (tickers @ [''^NSEI''])") (auto simp: run_backtest_def no_output_def Let_def)
  from assms t f have ne: "\<not> raw_empty raw"
    by (auto simp: run_backtest_def no_output_def Let_def)
  have run: "run_backtest download tickers =
      ([Print Banner, Print (TestingOn (take 5 tickers)), Download (tickers @ [''^NSEI''])]
         @ fst (process tickers raw), snd (process tickers raw))"
    using t f ne by (simp add: run_backtest_def Let_def split: prod.splits)
  with assms have out: "\<not> no_output (fst (process tickers raw))"
    by (simp add: no_output_def)
  obtain adv r where sel: "select_price_column raw = (adv, r)"
    by (cases "select_price_column raw")
  from select_price_column_advisory [OF sel] have adv: "\<not> list_ex is_chart adv \<and> \<not> list_ex is_result adv"
    by auto
  show ?thesis
  proof (cases raw)
    case (Flat n cols)
    with out sel adv show ?thesis
      by (auto simp: process_flat no_output_def split: option.splits)
  next
    case (Layered n cols)
    from out sel adv obtain f where r: "r = Some f"
      by (cases r) (auto simp: Layered process_layered no_output_def)
    from out sel adv r obtain nd where nd: "normalize (clean_data (field_frame n cols f)) = Inr nd"
      by (cases "normalize (clean_data (field_frame n cols f))")
         (auto simp: Layered process_layered no_output_def)
    show ?thesis
      using t f ne sel r nd run unfolding Layered
      by (auto simp: process_layered)
  qed
qed

lemma select_price_column_fields:
  "select_price_column raw =
     (if ''Adj Close'' \<in> set (raw_fields raw) then ([], Some ''Adj Close'')
      else if ''Close'' \<in> set (raw_fields raw) then ([Print NoteUsingClose], Some ''Close'')
      else ([], None))"
  by (cases raw) (simp_all add: select_price_column_def)

lemma process_no_field:
  assumes "select_price_column raw = ([], None)"
  shows "process tickers raw = ([Print ErrNoPriceColumn], Returned)"
  using assms by (simp add: process_def)

lemma run_backtest_fetched:
  assumes "tickers \<noteq> []" and "download (tickers @ [''^NSEI'']) = Fetched raw" and "\<not> raw_empty raw"
  shows "run_backtest download tickers =
           ([Print Banner, Print (TestingOn (take 5 tickers)), Download (tickers @ [''^NSEI''])]
              @ fst (process tickers raw), snd (process tickers raw))"
  using assms by (simp add: run_backtest_def Let_def split: prod.splits)

lemma run_backtest_no_field:
  assumes "download (tickers @ [''^NSEI'']) = Fetched raw"
      and "select_price_column raw = ([], None)"
  shows "snd (run_backtest download tickers) = Returned \<and> no_output (fst (run_backtest download tickers))
       \<and> (tickers \<noteq> [] \<and> \<not> raw_empty raw \<longrightarrow> halts_with ErrNoPriceColumn (run_backtest download tickers))"
proof (cases "tickers = [] \<or> raw_empty raw")
  case True
  then show ?thesis using assms(1)
    by (auto simp: run_backtest_def Let_def no_output_def)
next
  case False
  then have "run_backtest download tickers =
           ([Print Banner, Print (TestingOn (take 5 tickers)), Download (tickers @ [''^NSEI'']),
             Print ErrNoPriceColumn], Returned)"
    using run_backtest_fetched [of tickers download raw] assms
    by (simp add: process_no_field)
  then show ?thesis by (simp add: no_output_def halts_with_def)
qed

lemma halts_withI:
  "r = (evs @ [Print m], Returned) \<Longrightarrow> no_output evs \<Longrightarrow> \<not> is_result (Print m) \<Longrightarrow> halts_with m r"
  by (simp add: halts_with_def no_output_def)

lemma no_output_ev0:
  "no_output [Print Banner, Print (TestingOn ts), Download ds]"
  by (simp add: no_output_def)

lemma no_output_adv:
  assumes "select_price_column raw = (adv, r)"
  shows "no_output ([Print Banner, Print (TestingOn ts), Download ds] @ adv)"
  using select_price_column_advisory [OF assms] by (auto simp: no_output_def)

lemma normalize_series_length: "length (normalize_series s) = length s"
  by (cases s) (simp_all add: normalize_series_def)

lemma normalize_series_map:
  "normalize_series s = map (\<lambda>v. fmul (fdiv v (s ! 0)) (Fin 100)) s"
  by (cases s) (simp_all add: normalize_series_def)

lemma normalize_series_nth:
  "i < length s \<Longrightarrow> normalize_series s ! i = fmul (fdiv (s ! i) (s ! 0)) (Fin 100)"
  by (simp add: normalize_series_map)

lemma normalize_finite:
  "x \<noteq> 0 \<Longrightarrow> fmul (fdiv (Fin p) (Fin x)) (Fin 100) = Fin (p / x * 100)"
  by simp

lemma normalize_Inr: "0 < nrows data \<Longrightarrow> normalize data = Inr (normalized data)"
  by (simp add: normalize_def)

lemma normalized_simps [simp]:
  "nrows (normalized data) = nrows data"
  "columns (normalized data) = map (\<lambda>c. (fst c, normalize_series (snd c))) (columns data)"
  by (simp_all add: normalized_def)

lemma scenario_data_eq:
  "scenario_data = \<lparr>nrows = 2, columns =
     [(''AAA'', [Fin 100, Fin 110]), (''BBB'', [Fin 50, Fin 60]), (''^NSEI'', [Fin 200, Fin 190])]\<rparr>"
  by (simp add: scenario_data_def scenario_cols_def clean_data_def bfill_def ffill_def
        dropna_all_def field_frame_def has_data_def ffill_series_def)

subsection \<open>Two concrete runs\<close>

lemma scenario_run:
  "run_backtest scenario_provider [''AAA'', ''BBB'']
     = ([Print Banner, Print (TestingOn [''AAA'', ''BBB'']),
         Download [''AAA'', ''BBB'', ''^NSEI''],
         Print ResultsHeader, Print Timeframe, Print (StrategyReturn (Fin 15)),
         Print (BenchmarkReturn (Fin (- 5))), Print (Success (Fin 20)),
         SaveFig [Fin 100, Fin 115] (Some [Fin 100, Fin 95]), Print ChartSaved], Returned)"
  by (simp add: pipeline_defs scenario_provider_def scenario_raw_def scenario_cols_def
        Let_def upt_conv_Cons)

lemma tie_run:
  "run_backtest tie_provider [''AAA'']
     = ([Print Banner, Print (TestingOn [''AAA'']), Download [''AAA'', ''^NSEI''],
         Print NoteUsingClose,
         Print ResultsHeader, Print Timeframe, Print (StrategyReturn (Fin 10)),
         Print (BenchmarkReturn (Fin 10)), Print (Underperformance (Fin 0)),
         SaveFig [Fin 100, Fin 110] (Some [Fin 100, Fin 110]), Print ChartSaved], Returned)"
  by (simp add: pipeline_defs tie_provider_def Let_def upt_conv_Cons)

lemma fgt_irrefl: "\<not> fgt a a"
  by (cases a) auto


lemma all_zero_run:
  "run_backtest all_zero_provider [''AAA'', ''BBB'']
     = ([Print Banner, Print (TestingOn [''AAA'', ''BBB'']),
         Download [''AAA'', ''BBB'', ''^NSEI''], Print NoteUsingClose,
         Print ResultsHeader, Print Timeframe, Print (StrategyReturn (Fin 20)),
         Print (BenchmarkReturn (Fin (- 5))), Print (Success (Fin 25)),
         SaveFig [Fin 100, Fin 120] (Some [Fin 100, Fin 95]), Print ChartSaved], Returned)"
  by (simp add: pipeline_defs all_zero_provider_def all_zero_cols_def signed_inf_def
        Let_def upt_conv_Cons)


lemma all_zero_data_eq:
  "all_zero_data = \<lparr>nrows = 2, columns =
     [(''AAA'', [Fin 0, Fin 0]), (''BBB'', [Fin 50, Fin 60]), (''^NSEI'', [Fin 200, Fin 190])]\<rparr>"
  by (simp add: all_zero_data_def all_zero_cols_def clean_data_def bfill_def ffill_def
        dropna_all_def field_frame_def has_data_def ffill_series_def)

subsection \<open>Rows and selected columns\<close>

lemma strategy_series_nth:
  "i < nrows nd \<Longrightarrow> strategy_series tickers data nd ! i =
     nanmean (row_at (select_columns (valid_tickers tickers data) nd) i)"
  by (simp add: strategy_series_def mean_axis1_def select_columns_def)


subsection \<open>The scenario in binary64\<close>

lemma floor_rat_numeral: "\<lfloor>(numeral a :: rat) / numeral b\<rfloor> = numeral a div numeral b"
  by (metis floor_divide_of_int_eq of_int_numeral)

lemmas binary64_defs =
  binary64_def exponent_of_def round_half_even_def pow2_def Let_def floor_rat_numeral

lemma scenario_quotients64:
  "fdiv64 (Fin 100) (Fin 100) = Fin 1"
  "fdiv64 (Fin 110) (Fin 100) = Fin (4953959590107546 / 2 ^ 52)"
  "fdiv64 (Fin 50) (Fin 50) = Fin 1"
  "fdiv64 (Fin 60) (Fin 50) = Fin (5404319552844595 / 2 ^ 52)"
  "fdiv64 (Fin 200) (Fin 200) = Fin 1"
  "fdiv64 (Fin 190) (Fin 200) = Fin (8556839292003942 / 2 ^ 53)"
  by (simp_all add: fdiv64_def binary64_defs)

lemma scenario_products64:
  "fmul64 (Fin 1) (Fin 100) = Fin 100"
  "fmul64 (Fin (4953959590107546 / 2 ^ 52)) (Fin 100) = Fin (110 + 1 / 2 ^ 46)"
  "fmul64 (Fin (5404319552844595 / 2 ^ 52)) (Fin 100) = Fin 120"
  "fmul64 (Fin (8556839292003942 / 2 ^ 53)) (Fin 100) = Fin 95"
  by (simp_all add: fmul64_def binary64_defs)

lemma scenario_sums64:
  "fadd64 (Fin 0) (Fin 100) = Fin 100"
  "fadd64 (Fin 100) (Fin 100) = Fin 200"
  "fadd64 (Fin 0) (Fin (110 + 1 / 2 ^ 46)) = Fin (110 + 1 / 2 ^ 46)"
  "fadd64 (Fin (110 + 1 / 2 ^ 46)) (Fin 120) = Fin 230"
  "fdiv64 (Fin 200) (Fin 2) = Fin 100"
  "fdiv64 (Fin 230) (Fin 2) = Fin 115"
  by (simp_all add: fadd64_def fdiv64_def binary64_defs)

lemma scenario_differences64:
  "fsub64 (Fin 115) (Fin 100) = Fin 15"
  "fsub64 (Fin 95) (Fin 100) = Fin (- 5)"
  "fsub64 (Fin 15) (Fin (- 5)) = Fin 20"
  by (simp_all add: fsub64_def fsub_def binary64_defs)

lemma normalize_series64_pair:
  "normalize_series64 [a, b] = [fmul64 (fdiv64 a a) (Fin 100), fmul64 (fdiv64 b a) (Fin 100)]"
  by (simp add: normalize_series64_def)

lemma nanmean64_pair:
  "a \<noteq> NaN \<Longrightarrow> b \<noteq> NaN \<Longrightarrow>
     nanmean64 [a, b] = fdiv64 (fadd64 (fadd64 (Fin 0) a) b) (Fin 2)"
  by (simp add: nanmean64_def)

lemma scenario_normalized64:
  "normalized64 scenario_data = \<lparr>nrows = 2, columns =
     [(''AAA'', [Fin 100, Fin (110 + 1 / 2 ^ 46)]), (''BBB'', [Fin 100, Fin 120]),
      (''^NSEI'', [Fin 100, Fin 95])]\<rparr>"
proof -
  have a: "normalize_series64 [Fin 100, Fin 110] = [Fin 100, Fin (110 + 1 / 2 ^ 46)]"
    by (simp only: normalize_series64_pair scenario_quotients64 scenario_products64)
  have b: "normalize_series64 [Fin 50, Fin 60] = [Fin 100, Fin 120]"
    by (simp only: normalize_series64_pair scenario_quotients64 scenario_products64)
  have c: "normalize_series64 [Fin 200, Fin 190] = [Fin 100, Fin 95]"
    by (simp only: normalize_series64_pair scenario_quotients64 scenario_products64)
  show ?thesis
    by (simp add: scenario_data_eq normalized64_def a b c)
qed

lemma scenario_strategy64:
  "strategy_series64 [''AAA'', ''BBB''] scenario_data (normalized64 scenario_data)
     = [Fin 100, Fin 115]"
proof -
  have m0: "nanmean64 [Fin 100, Fin 100] = Fin 100"
    by (simp only: nanmean64_pair [of "Fin 100" "Fin 100", simplified] scenario_sums64)
  have m1: "nanmean64 [Fin (110 + 1 / 2 ^ 46), Fin 120] = Fin 115"
    by (simp only: nanmean64_pair [of "Fin (110 + 1 / 2 ^ 46)" "Fin 120", OF fval.distinct(5) fval.distinct(5)]
          scenario_sums64)
  have vt: "valid_tickers [''AAA'', ''BBB''] scenario_data = [''AAA'', ''BBB'']"
    by (simp add: scenario_data_eq valid_tickers_def column_labels_def)
  have r0: "row_at (select_columns [''AAA'', ''BBB''] (normalized64 scenario_data)) 0
      = [Fin 100, Fin 100]"
    by (simp add: scenario_normalized64 select_columns_def row_at_def)
  have r1: "row_at (select_columns [''AAA'', ''BBB''] (normalized64 scenario_data)) (Suc 0)
      = [Fin (110 + 1 / 2 ^ 46), Fin 120]"
    by (simp add: scenario_normalized64 select_columns_def row_at_def)
  have n: "nrows (normalized64 scenario_data) = 2"
    by (simp add: scenario_normalized64)
  have u: "[0..<2] = [0, Suc 0]" by (simp add: upt_conv_Cons)
  show ?thesis
    unfolding strategy_series64_def vt n u list.map r0 r1 m0 m1 ..
qed

subsection \<open>The concrete scenario\<close>

text \<open>
  The claim C1 as written fails in one value: the second normalized entry of AAA is
  \<open>110.0 / 100.0 * 100.0\<close>, which in float64 is 110.00000000000001 (that is
  \<open>110 + 2^-46\<close>), not 110.
\<close>

theorem scenario_normalized_counterexample:
  "map_of (columns (normalized64 scenario_data)) ''AAA'' = Some [Fin 100, Fin (110 + 1 / 2 ^ 46)]
   \<and> [Fin 100, Fin (110 + 1 / 2 ^ 46)] \<noteq> [Fin 100, Fin 110]"
  by (simp add: scenario_normalized64)

text \<open>
  C1, amended. With the candidate list AAA, BBB and the fetched two-row history
  AAA = 100, 110, BBB = 50, 60, benchmark = 200, 190, the normalized series in float64 are
  AAA = 100, 110.00000000000001, BBB = 100, 120 and benchmark = 100, 95; the strategy series
  is 100, 115, the strategy return 15, the benchmark return -5 and the outperformance 20,
  each of them exact in float64; the run plots and prints these values and reports success.
\<close>

theorem scenario_two_candidates:
  "scenario_data = \<lparr>nrows = 2, columns =
     [(''AAA'', [Fin 100, Fin 110]), (''BBB'', [Fin 50, Fin 60]), (''^NSEI'', [Fin 200, Fin 190])]\<rparr>
   \<and> normalized64 scenario_data = \<lparr>nrows = 2, columns =
     [(''AAA'', [Fin 100, Fin (110 + 1 / 2 ^ 46)]), (''BBB'', [Fin 100, Fin 120]),
      (''^NSEI'', [Fin 100, Fin 95])]\<rparr>
   \<and> strategy_series64 [''AAA'', ''BBB''] scenario_data (normalized64 scenario_data)
       = [Fin 100, Fin 115]
   \<and> fsub64 (Fin 115) (Fin 100) = Fin 15
   \<and> fsub64 (Fin 95) (Fin 100) = Fin (- 5)
   \<and> fsub64 (Fin 15) (Fin (- 5)) = Fin 20
   \<and> fgt (Fin 15) (Fin (- 5))
   \<and> run_backtest scenario_provider [''AAA'', ''BBB'']
     = ([Print Banner, Print (TestingOn [''AAA'', ''BBB'']),
         Download [''AAA'', ''BBB'', ''^NSEI''],
         Print ResultsHeader, Print Timeframe, Print (StrategyReturn (Fin 15)),
         Print (BenchmarkReturn (Fin (- 5))), Print (Success (Fin 20)),
         SaveFig [Fin 100, Fin 115] (Some [Fin 100, Fin 95]), Print ChartSaved], Returned)"
proof -
  have gt: "fgt (Fin 15) (Fin (- 5))" by simp
  show ?thesis
    by (intro conjI scenario_data_eq scenario_normalized64 scenario_strategy64
          scenario_differences64 gt scenario_run)
qed

subsection \<open>The verdict\<close>

text \<open>
  C3. In every run that prints both a strategy return and a benchmark return, success is
  reported exactly when the strategy return is strictly greater than the benchmark return,
  and underperformance is reported otherwise, in particular on an exact tie. The
  difference computed is the strategy return minus the benchmark return: the success line
  prints it, the underperformance line prints its absolute value as the lag.
\<close>

theorem verdict_success_iff_greater:
  assumes "Print (StrategyReturn sr) \<in> set (fst (run_backtest download tickers))"
      and "Print (BenchmarkReturn br) \<in> set (fst (run_backtest download tickers))"
  shows "(Print (Success d) \<in> set (fst (run_backtest download tickers))
            \<longleftrightarrow> fgt sr br \<and> d = fsub sr br)
       \<and> (Print (Underperformance d) \<in> set (fst (run_backtest download tickers))
            \<longleftrightarrow> \<not> fgt sr br \<and> d = fabs (fsub sr br))
       \<and> (sr = br \<longrightarrow> \<not> fgt sr br)
       \<and> (\<forall>a b. sr = Fin a \<and> br = Fin b \<longrightarrow> fgt sr br = (b < a) \<and> fsub sr br = Fin (a - b))"
proof -
  let ?evs = "fst (run_backtest download tickers)"
  from assms(1) have "\<not> no_output ?evs"
    by (auto simp: no_output_def list_ex_iff intro!: bexI [of _ "Print (StrategyReturn sr)"])
  from run_backtest_output [OF this] obtain n cols adv f nd where
    adv: "select_price_column (Layered n cols) = (adv, Some f)" and
    run: "?evs = [Print Banner, Print (TestingOn (take 5 tickers)), Download (tickers @ [''^NSEI''])]
                @ adv @ fst (simulate tickers (clean_data (field_frame n cols f)) nd)"
    by auto
  let ?sim = "fst (simulate tickers (clean_data (field_frame n cols f)) nd)"
  from select_price_column_advisory [OF adv] have adv': "adv = [] \<or> adv = [Print NoteUsingClose]" .
  from assms adv' have "Print (StrategyReturn sr) \<in> set ?sim" "Print (BenchmarkReturn br) \<in> set ?sim"
    unfolding run by auto
  from simulate_events [OF this] obtain s b where
    sim: "?sim = [Print ResultsHeader, Print Timeframe, Print (StrategyReturn sr)]
                 @ report_comparison sr br @ plot_chart s (Some b)"
    by blast
  have "(Print (Success d) \<in> set ?evs \<longleftrightarrow> fgt sr br \<and> d = fsub sr br)"
    using adv' unfolding run sim by (auto simp: report_comparison_def plot_chart_def Let_def)
  moreover have "(Print (Underperformance d) \<in> set ?evs \<longleftrightarrow> \<not> fgt sr br \<and> d = fabs (fsub sr br))"
    using adv' unfolding run sim by (auto simp: report_comparison_def plot_chart_def Let_def)
  moreover have "sr = br \<longrightarrow> \<not> fgt sr br"
    by (simp add: fgt_irrefl)
  moreover have "\<forall>a b. sr = Fin a \<and> br = Fin b \<longrightarrow> fgt sr br = (b < a) \<and> fsub sr br = Fin (a - b)"
    by (simp add: fsub_def)
  ultimately show ?thesis by blast
qed

theorem verdict_success_iff_greater_witness:
  "Print (StrategyReturn (Fin 15)) \<in> set (fst (run_backtest scenario_provider [''AAA'', ''BBB'']))
   \<and> Print (BenchmarkReturn (Fin (- 5))) \<in> set (fst (run_backtest scenario_provider [''AAA'', ''BBB'']))
   \<and> Print (Success (Fin 20)) \<in> set (fst (run_backtest scenario_provider [''AAA'', ''BBB'']))
   \<and> fgt (Fin 15) (Fin (- 5))
   \<and> Print (StrategyReturn (Fin 10)) \<in> set (fst (run_backtest tie_provider [''AAA'']))
   \<and> Print (BenchmarkReturn (Fin 10)) \<in> set (fst (run_backtest tie_provider [''AAA'']))
   \<and> Print (Underperformance (Fin 0)) \<in> set (fst (run_backtest tie_provider [''AAA'']))
   \<and> \<not> fgt (Fin 10) (Fin 10)"
proof -
  have a: "Print (StrategyReturn (Fin 15)) \<in> set (fst (run_backtest scenario_provider [''AAA'', ''BBB'']))"
    unfolding scenario_run by simp
  have b: "Print (BenchmarkReturn (Fin (- 5))) \<in> set (fst (run_backtest scenario_provider [''AAA'', ''BBB'']))"
    unfolding scenario_run by simp
  have c: "Print (StrategyReturn (Fin 10)) \<in> set (fst (run_backtest tie_provider [''AAA'']))"
    unfolding tie_run by simp
  have d: "Print (BenchmarkReturn (Fin 10)) \<in> set (fst (run_backtest tie_provider [''AAA'']))"
    unfolding tie_run by simp
  have gt: "fgt (Fin 15) (Fin (- 5)) \<and> Fin 20 = fsub (Fin 15) (Fin (- 5))"
    by (simp add: fsub_def)
  have tie: "\<not> fgt (Fin 10) (Fin 10) \<and> Fin 0 = fabs (fsub (Fin 10) (Fin 10))"
    by (simp add: fsub_def)
  note v1 = verdict_success_iff_greater [OF a b, of "Fin 20", THEN conjunct1]
  note v2 = verdict_success_iff_greater [OF c d, of "Fin 0", THEN conjunct2, THEN conjunct1]
  have s: "Print (Success (Fin 20)) \<in> set (fst (run_backtest scenario_provider [''AAA'', ''BBB'']))"
    by (rule iffD2 [OF v1 gt])
  have u: "Print (Underperformance (Fin 0)) \<in> set (fst (run_backtest tie_provider [''AAA'']))"
    by (rule iffD2 [OF v2 tie])
  show ?thesis
    by (intro conjI a b s c d u conjunct1 [OF gt] conjunct1 [OF tie])
qed

subsection \<open>The price field\<close>

text \<open>
  C6. The claim asks for the same behaviour on flat and on layered columns: the adjusted
  field when it is there, else the raw close with an advisory that does not stop the run.
  On a flat table the code selects the field and prints the advisory as on a layered one,
  but \<^verbatim>\<open>data_raw[target_col]\<close> is then a \<^verbatim>\<open>Series\<close>, and the next statement,
  \<^verbatim>\<open>data.dropna(axis=1, how='all')\<close>, raises \<^verbatim>\<open>ValueError\<close>, which nothing catches: the
  run ends there, without cleaning, result or chart. The layered table with the same
  field runs to the end.
\<close>

theorem flat_table_raises:
  "select_price_column flat_close_raw = ([Print NoteUsingClose], Some ''Close'')
   \<and> run_backtest flat_close_provider [''AAA'']
     = ([Print Banner, Print (TestingOn [''AAA'']), Download [''AAA'', ''^NSEI''],
         Print NoteUsingClose], Raised ValueError)
   \<and> run_backtest tie_provider [''AAA'']
     = ([Print Banner, Print (TestingOn [''AAA'']), Download [''AAA'', ''^NSEI''],
         Print NoteUsingClose,
         Print ResultsHeader, Print Timeframe, Print (StrategyReturn (Fin 10)),
         Print (BenchmarkReturn (Fin 10)), Print (Underperformance (Fin 0)),
         SaveFig [Fin 100, Fin 110] (Some [Fin 100, Fin 110]), Print ChartSaved], Returned)"
proof -
  have sel: "select_price_column flat_close_raw = ([Print NoteUsingClose], Some ''Close'')"
    by (simp add: select_price_column_def flat_close_raw_def)
  have p: "process [''AAA''] flat_close_raw = ([Print NoteUsingClose], Raised ValueError)"
    using sel by (simp add: flat_close_raw_def process_flat)
  have "run_backtest flat_close_provider [''AAA'']
     = ([Print Banner, Print (TestingOn [''AAA'']), Download [''AAA'', ''^NSEI''],
         Print NoteUsingClose], Raised ValueError)"
    using run_backtest_fetched [of "[''AAA'']" flat_close_provider flat_close_raw] p
    by (simp add: flat_close_provider_def flat_close_raw_def)
  with sel tie_run show ?thesis by (intro conjI)
qed

subsection \<open>Fatal conditions\<close>

text \<open>
  C8. On each fatal condition the pipeline halts where the condition is detected: the
  ticker file is missing, the ticker column is absent, the provider call raises, the
  fetched table is empty, neither price field is found, or no candidate symbol is left
  after cleaning. The run returns, the last line it printed is the diagnostic of that
  stage, no chart is written and no result is reported.
\<close>

theorem fatal_conditions_halt:
  "(csv_file e = FileNotFound \<longrightarrow>
      backtest_main e = ([Print ErrFileNotFound, Print WarnNoTickers], Returned)
      \<and> halts_with WarnNoTickers (backtest_main e))
 \<and> (csv_file e = Csv df \<and> ''ticker'' \<notin> set (map fst df) \<and> ''Ticker'' \<notin> set (map fst df) \<longrightarrow>
      backtest_main e = ([Print ErrNoTickerColumn, Print WarnNoTickers], Returned)
      \<and> halts_with WarnNoTickers (backtest_main e))
 \<and> (tickers \<noteq> [] \<and> download (tickers @ [''^NSEI'']) = FetchRaised \<longrightarrow>
      halts_with ErrDownload (run_backtest download tickers))
 \<and> (tickers \<noteq> [] \<and> download (tickers @ [''^NSEI'']) = Fetched raw \<and> raw_empty raw \<longrightarrow>
      halts_with ErrNoData (run_backtest download tickers))
 \<and> (tickers \<noteq> [] \<and> download (tickers @ [''^NSEI'']) = Fetched raw \<and> \<not> raw_empty raw
      \<and> ''Adj Close'' \<notin> set (raw_fields raw) \<and> ''Close'' \<notin> set (raw_fields raw) \<longrightarrow>
      halts_with ErrNoPriceColumn (run_backtest download tickers))
 \<and> (tickers \<noteq> [] \<and> download (tickers @ [''^NSEI'']) = Fetched (Layered n cols)
      \<and> \<not> raw_empty (Layered n cols) \<and> select_price_column (Layered n cols) = (adv, Some f)
      \<and> valid_tickers tickers (clean_data (field_frame n cols f)) = [] \<longrightarrow>
      halts_with ErrNoValidData (run_backtest download tickers))"
proof (intro conjI impI)
  assume "csv_file e = FileNotFound"
  then show r: "backtest_main e = ([Print ErrFileNotFound, Print WarnNoTickers], Returned)"
    by (simp add: backtest_main_def load_tickers_def run_backtest_def)
  show "halts_with WarnNoTickers (backtest_main e)"
    unfolding r by (simp add: halts_with_def no_output_def)
next
  assume "csv_file e = Csv df \<and> ''ticker'' \<notin> set (map fst df) \<and> ''Ticker'' \<notin> set (map fst df)"
  then show r: "backtest_main e = ([Print ErrNoTickerColumn, Print WarnNoTickers], Returned)"
    by (simp add: backtest_main_def load_tickers_def run_backtest_def)
  show "halts_with WarnNoTickers (backtest_main e)"
    unfolding r by (simp add: halts_with_def no_output_def)
next
  assume "tickers \<noteq> [] \<and> download (tickers @ [''^NSEI'']) = FetchRaised"
  then have "run_backtest download tickers =
      ([Print Banner, Print (TestingOn (take 5 tickers)), Download (tickers @ [''^NSEI''])]
         @ [Print ErrDownload], Returned)"
    by (simp add: run_backtest_def Let_def)
  then show "halts_with ErrDownload (run_backtest download tickers)"
    by (rule halts_withI) (simp_all add: no_output_def)
next
  assume "tickers \<noteq> [] \<and> download (tickers @ [''^NSEI'']) = Fetched raw \<and> raw_empty raw"
  then have "run_backtest download tickers =
      ([Print Banner, Print (TestingOn (take 5 tickers)), Download (tickers @ [''^NSEI''])]
         @ [Print ErrNoData], Returned)"
    by (simp add: run_backtest_def Let_def)
  then show "halts_with ErrNoData (run_backtest download tickers)"
    by (rule halts_withI) (simp_all add: no_output_def)
next
  assume a: "tickers \<noteq> [] \<and> download (tickers @ [''^NSEI'']) = Fetched raw \<and> \<not> raw_empty raw
      \<and> ''Adj Close'' \<notin> set (raw_fields raw) \<and> ''Close'' \<notin> set (raw_fields raw)"
  then have sel: "select_price_column raw = ([], None)"
    by (simp add: select_price_column_fields)
  from a have f: "download (tickers @ [''^NSEI'']) = Fetched raw" by simp
  from run_backtest_no_field [of download tickers raw, OF f sel] a
  show "halts_with ErrNoPriceColumn (run_backtest download tickers)" by simp
next
  assume a: "tickers \<noteq> [] \<and> download (tickers @ [''^NSEI'']) = Fetched (Layered n cols)
      \<and> \<not> raw_empty (Layered n cols) \<and> select_price_column (Layered n cols) = (adv, Some f)
      \<and> valid_tickers tickers (clean_data (field_frame n cols f)) = []"
  then have n: "0 < n" by simp
  have nd: "normalize (clean_data (field_frame n cols f)) =
      Inr (normalized (clean_data (field_frame n cols f)))"
    using n by (simp add: normalize_def clean_data_def bfill_def ffill_def dropna_all_def field_frame_def)
  have "process tickers (Layered n cols) = (adv @ [Print ErrNoValidData], Returned)"
    using a by (simp add: process_layered nd simulate_def)
  with a have "run_backtest download tickers =
      (([Print Banner, Print (TestingOn (take 5 tickers)), Download (tickers @ [''^NSEI''])] @ adv)
         @ [Print ErrNoValidData], Returned)"
    using run_backtest_fetched [of tickers download "Layered n cols"] by simp
  moreover from a have "select_price_column (Layered n cols) = (adv, Some f)" by simp
  note no_output_adv [OF this]
  ultimately show "halts_with ErrNoValidData (run_backtest download tickers)"
    by (rule halts_withI) simp
qed

theorem fatal_conditions_halt_witness:
  "backtest_main env_missing_file = ([Print ErrFileNotFound, Print WarnNoTickers], Returned)
 \<and> halts_with WarnNoTickers (backtest_main env_missing_file)
 \<and> backtest_main env_no_ticker_column = ([Print ErrNoTickerColumn, Print WarnNoTickers], Returned)
 \<and> halts_with WarnNoTickers (backtest_main env_no_ticker_column)
 \<and> halts_with ErrDownload (run_backtest failing_provider [''AAA''])
 \<and> halts_with ErrNoData (run_backtest empty_provider [''AAA''])
 \<and> halts_with ErrNoPriceColumn (run_backtest open_only_provider [''AAA''])
 \<and> halts_with ErrNoValidData (run_backtest no_data_provider [''AAA''])"
proof -
  have h1: "csv_file env_missing_file = FileNotFound"
    by (simp add: env_missing_file_def)
  have h2: "csv_file env_no_ticker_column = Csv [(''symbol'', [''AAA'', ''BBB''])]
      \<and> ''ticker'' \<notin> set (map fst [(''symbol'', [''AAA'', ''BBB''])])
      \<and> ''Ticker'' \<notin> set (map fst [(''symbol'', [''AAA'', ''BBB''])])"
    by (simp add: env_no_ticker_column_def)
  have h3: "[''AAA''] \<noteq> [] \<and> failing_provider ([''AAA''] @ [''^NSEI'']) = FetchRaised"
    by (simp add: failing_provider_def)
  have h4: "[''AAA''] \<noteq> [] \<and> empty_provider ([''AAA''] @ [''^NSEI'']) = Fetched (Layered 0 [])
      \<and> raw_empty (Layered 0 [])"
    by (simp add: empty_provider_def)
  have h5: "[''AAA''] \<noteq> [] \<and> open_only_provider ([''AAA''] @ [''^NSEI'']) = Fetched open_only_raw
      \<and> \<not> raw_empty open_only_raw
      \<and> ''Adj Close'' \<notin> set (raw_fields open_only_raw) \<and> ''Close'' \<notin> set (raw_fields open_only_raw)"
    by (simp add: open_only_provider_def open_only_raw_def)
  have h6: "[''AAA''] \<noteq> [] \<and> no_data_provider ([''AAA''] @ [''^NSEI'']) = Fetched (Layered 2 no_data_cols)
      \<and> \<not> raw_empty (Layered 2 no_data_cols)
      \<and> select_price_column (Layered 2 no_data_cols) = ([Print NoteUsingClose], Some ''Close'')
      \<and> valid_tickers [''AAA''] (clean_data (field_frame 2 no_data_cols ''Close'')) = []"
    by (simp add: no_data_provider_def no_data_cols_def select_price_column_def valid_tickers_def
          clean_data_def bfill_def ffill_def dropna_all_def field_frame_def has_data_def
          column_labels_def ffill_series_def)
  note t1 = fatal_conditions_halt [of env_missing_file, THEN conjunct1, THEN mp, OF h1]
  note t2 = fatal_conditions_halt [of env_no_ticker_column "[(''symbol'', [''AAA'', ''BBB''])]",
      THEN conjunct2, THEN conjunct1, THEN mp, OF h2]
  note t3 = fatal_conditions_halt [of _ _ "[''AAA'']" failing_provider,
      THEN conjunct2, THEN conjunct2, THEN conjunct1, THEN mp, OF h3]
  note t4 = fatal_conditions_halt [of _ _ "[''AAA'']" empty_provider "Layered 0 []",
      THEN conjunct2, THEN conjunct2, THEN conjunct2, THEN conjunct1, THEN mp, OF h4]
  note t5 = fatal_conditions_halt [of _ _ "[''AAA'']" open_only_provider open_only_raw,
      THEN conjunct2, THEN conjunct2, THEN conjunct2, THEN conjunct2, THEN conjunct1, THEN mp, OF h5]
  note t6 = fatal_conditions_halt [of _ _ "[''AAA'']" no_data_provider _ 2 no_data_cols
        "[Print NoteUsingClose]" "''Close''",
      THEN conjunct2, THEN conjunct2, THEN conjunct2, THEN conjunct2, THEN conjunct2, THEN mp, OF h6]
  show ?thesis
    by (intro conjI t1 [THEN conjunct1] t1 [THEN conjunct2] t2 [THEN conjunct1] t2 [THEN conjunct2]
          t3 t4 t5 t6)
qed

subsection \<open>Normalization\<close>



subsection \<open>The ticker list\<close>

text \<open>
  The claim C9 as written, that a loaded ticker list never holds a symbol twice, fails: a
  file that names a symbol twice is loaded as it is.
\<close>

theorem ticker_list_unique_counterexample:
  "load_tickers duplicate_csv = ([], Inr [''AAA'', ''BBB'', ''AAA''])
   \<and> \<not> distinct [''AAA'', ''BBB'', ''AAA'']"
  by (simp add: load_tickers_def duplicate_csv_def tolist_def)

text \<open>
  C9, amended. The ticker list of a loaded file is the column \<open>ticker\<close>, or else the
  column \<open>Ticker\<close>, cell by cell in file order, duplicates kept. When the load fails or
  yields the empty list, the pipeline stops before the provider is called, without a chart
  and without a result; when the list is not empty the provider is called with the list
  followed by the benchmark symbol.
\<close>

theorem load_tickers_file_order:
  "(map_of df ''ticker'' = Some cells \<longrightarrow> load_tickers (Csv df) = ([], Inr cells))
 \<and> (map_of df ''ticker'' = None \<and> map_of df ''Ticker'' = Some cells \<longrightarrow>
      load_tickers (Csv df) = ([], Inr cells))
 \<and> (snd (load_tickers (csv_file e)) = Inr [] \<or> snd (load_tickers (csv_file e)) = Inl err \<longrightarrow>
      \<not> list_ex is_download (fst (backtest_main e)) \<and> no_output (fst (backtest_main e)))
 \<and> (snd (load_tickers (csv_file e)) = Inr ts \<and> ts \<noteq> [] \<longrightarrow>
      Download (ts @ [''^NSEI'']) \<in> set (fst (backtest_main e)))"
proof (intro conjI impI)
  assume a: "map_of df ''ticker'' = Some cells"
  then have "''ticker'' \<in> set (map fst df)"
    using map_of_eq_None_iff [of df "''ticker''"] by simp
  with a show "load_tickers (Csv df) = ([], Inr cells)"
    by (simp add: load_tickers_def tolist_def)
next
  assume a: "map_of df ''ticker'' = None \<and> map_of df ''Ticker'' = Some cells"
  then have "''ticker'' \<notin> set (map fst df)" "''Ticker'' \<in> set (map fst df)"
    using map_of_eq_None_iff [of df "''ticker''"] map_of_eq_None_iff [of df "''Ticker''"] by simp_all
  with a show "load_tickers (Csv df) = ([], Inr cells)"
    by (simp add: load_tickers_def tolist_def)
next
  assume a: "snd (load_tickers (csv_file e)) = Inr [] \<or> snd (load_tickers (csv_file e)) = Inl err"
  obtain ev r where l: "load_tickers (csv_file e) = (ev, r)"
    by (cases "load_tickers (csv_file e)")
  then have ev: "ev = [] \<or> ev = [Print ErrFileNotFound] \<or> ev = [Print ErrNoTickerColumn]"
    by (auto simp: load_tickers_def split: csv_read.splits if_splits)
  from a l have "r = Inr [] \<or> r = Inl err" by simp
  then have "fst (backtest_main e) = ev \<or> fst (backtest_main e) = ev @ [Print WarnNoTickers]"
    using l by (auto simp: backtest_main_def run_backtest_def)
  with ev show "\<not> list_ex is_download (fst (backtest_main e))"
    by auto
  from ev \<open>fst (backtest_main e) = ev \<or> fst (backtest_main e) = ev @ [Print WarnNoTickers]\<close>
  show "no_output (fst (backtest_main e))"
    by (auto simp: no_output_def)
next
  assume a: "snd (load_tickers (csv_file e)) = Inr ts \<and> ts \<noteq> []"
  obtain ev where l: "load_tickers (csv_file e) = (ev, Inr ts)"
    using a by (cases "load_tickers (csv_file e)") simp
  have "Download (ts @ [''^NSEI'']) \<in> set (fst (run_backtest (provider e) ts))"
    using a by (simp add: run_backtest_def Let_def split: fetch_result.splits prod.splits)
  then show "Download (ts @ [''^NSEI'']) \<in> set (fst (backtest_main e))"
    using l by (cases "run_backtest (provider e) ts") (simp add: backtest_main_def)
qed

theorem load_tickers_file_order_witness:
  "load_tickers (Csv [(''ticker'', [''AAA'', ''AAA''])]) = ([], Inr [''AAA'', ''AAA''])
 \<and> load_tickers (Csv [(''Ticker'', [''AAA'', ''BBB'', ''AAA'']), (''score'', [''9'', ''8'', ''9''])])
       = ([], Inr [''AAA'', ''BBB'', ''AAA''])
 \<and> \<not> list_ex is_download (fst (backtest_main env_missing_file))
 \<and> no_output (fst (backtest_main env_missing_file))
 \<and> Download ([''AAA'', ''BBB'', ''AAA''] @ [''^NSEI'']) \<in> set (fst (backtest_main env_duplicates))"
proof -
  have h1: "map_of [(''ticker'', [''AAA'', ''AAA''])] ''ticker'' = Some [''AAA'', ''AAA'']"
    by simp
  have h2: "map_of [(''Ticker'', [''AAA'', ''BBB'', ''AAA'']), (''score'', [''9'', ''8'', ''9''])] ''ticker'' = None
      \<and> map_of [(''Ticker'', [''AAA'', ''BBB'', ''AAA'']), (''score'', [''9'', ''8'', ''9''])] ''Ticker''
          = Some [''AAA'', ''BBB'', ''AAA'']"
    by simp
  have h3: "snd (load_tickers (csv_file env_missing_file)) = Inr []
      \<or> snd (load_tickers (csv_file env_missing_file)) = Inl OtherException"
    by (simp add: env_missing_file_def load_tickers_def)
  have h4: "snd (load_tickers (csv_file env_duplicates)) = Inr [''AAA'', ''BBB'', ''AAA'']
      \<and> [''AAA'', ''BBB'', ''AAA''] \<noteq> []"
    by (simp add: env_duplicates_def duplicate_csv_def load_tickers_def tolist_def)
  note t1 = load_tickers_file_order [of "[(''ticker'', [''AAA'', ''AAA''])]" "[''AAA'', ''AAA'']",
      THEN conjunct1, THEN mp, OF h1]
  note t2 = load_tickers_file_order [of
      "[(''Ticker'', [''AAA'', ''BBB'', ''AAA'']), (''score'', [''9'', ''8'', ''9''])]"
      "[''AAA'', ''BBB'', ''AAA'']", THEN conjunct2, THEN conjunct1, THEN mp, OF h2]
  note t3 = load_tickers_file_order [of _ _ env_missing_file OtherException,
      THEN conjunct2, THEN conjunct2, THEN conjunct1, THEN mp, OF h3]
  note t4 = load_tickers_file_order [of _ _ env_duplicates _ "[''AAA'', ''BBB'', ''AAA'']",
      THEN conjunct2, THEN conjunct2, THEN conjunct2, THEN mp, OF h4]
  show ?thesis
    by (intro conjI t1 t2 t3 [THEN conjunct1] t3 [THEN conjunct2] t4)
qed

subsection \<open>A first price of zero\<close>




subsection \<open>Cleaning\<close>

lemma ffill_from_length: "length (ffill_from p s) = length s"
  by (induction s arbitrary: p) auto

lemma bfill_series_length: "length (bfill_series s) = length s"
  by (induction s) (auto simp: Let_def)

lemma ffill_from_last:
  "s \<noteq> [] \<Longrightarrow> p \<noteq> NaN \<or> has_data s \<Longrightarrow> last (ffill_from p s) \<noteq> NaN"
proof (induction s arbitrary: p)
  case Nil
  then show ?case by simp
next
  case (Cons v vs)
  show ?case
  proof (cases "vs = []")
    case True
    with Cons.prems show ?thesis by (auto simp: has_data_def)
  next
    case False
    have "last (ffill_from (if v = NaN then p else v) vs) \<noteq> NaN"
      using Cons.IH [OF False, of "if v = NaN then p else v"] Cons.prems(2)
      by (auto simp: has_data_def)
    moreover have "ffill_from (if v = NaN then p else v) vs \<noteq> []"
      using False by (cases vs) auto
    ultimately show ?thesis by auto
  qed
qed

lemma bfill_series_no_nan:
  "s \<noteq> [] \<Longrightarrow> last s \<noteq> NaN \<Longrightarrow> NaN \<notin> set (bfill_series s)"
proof (induction s)
  case Nil
  then show ?case by simp
next
  case (Cons v vs)
  show ?case
  proof (cases "vs = []")
    case True
    with Cons.prems show ?thesis by simp
  next
    case False
    then have ih: "NaN \<notin> set (bfill_series vs)"
      using Cons by simp
    from False obtain w ws where r: "bfill_series vs = w # ws"
      by (cases vs) (auto simp: Let_def)
    with ih have "w \<noteq> NaN" by auto
    with ih r show ?thesis by (auto simp: Let_def)
  qed
qed

lemma fill_series_no_nan:
  assumes "has_data s"
  shows "NaN \<notin> set (bfill_series (ffill_series s))"
proof -
  from assms have ne: "s \<noteq> []" by (auto simp: has_data_def)
  then have "ffill_series s \<noteq> []"
    by (cases s) (auto simp: ffill_series_def)
  moreover have "last (ffill_series s) \<noteq> NaN"
    unfolding ffill_series_def using ffill_from_last [OF ne] assms by blast
  ultimately show ?thesis by (rule bfill_series_no_nan)
qed

text \<open>
  C7. After the cleaning stage (columns without any data dropped, then forward fill, then
  backward fill), no column that is kept holds a missing value. The columns kept are
  exactly those of the selected table that hold at least one value.
\<close>

theorem clean_data_no_missing:
  "(\<forall>c \<in> set (columns (clean_data d)). NaN \<notin> set (snd c))
   \<and> column_labels (clean_data d) = map fst (filter (\<lambda>c. has_data (snd c)) (columns d))"
proof -
  have "NaN \<notin> set (snd c)" if "c \<in> set (columns (clean_data d))" for c
  proof -
    from that obtain c0 where c0: "c0 \<in> set (columns d)" "has_data (snd c0)"
      and c: "c = (fst c0, bfill_series (ffill_series (snd c0)))"
      by (auto simp: clean_data_def bfill_def ffill_def dropna_all_def)
    from c0(2) show ?thesis unfolding c by (simp add: fill_series_no_nan)
  qed
  moreover have "column_labels (clean_data d) = map fst (filter (\<lambda>c. has_data (snd c)) (columns d))"
    by (simp add: column_labels_def clean_data_def bfill_def ffill_def dropna_all_def comp_def)
  ultimately show ?thesis by blast
qed

theorem clean_data_no_missing_witness:
  "columns (clean_data gappy_table)
     = [(''AAA'', [Fin 10, Fin 10, Fin 11]), (''BBB'', [Fin 5, Fin 5, Fin 5])]
   \<and> list_all (\<lambda>c. NaN \<notin> set (snd c)) (columns (clean_data gappy_table))
   \<and> column_labels (clean_data gappy_table) = [''AAA'', ''BBB'']"
  using clean_data_no_missing [of gappy_table]
  by (simp add: gappy_table_def clean_data_def bfill_def ffill_def dropna_all_def
        has_data_def ffill_series_def column_labels_def)

subsection \<open>The strategy series of a run\<close>

lemma plotted_strategy_append:
  "plotted_strategy (xs @ ys) = plotted_strategy xs @ plotted_strategy ys"
  by (induction xs rule: plotted_strategy.induct) simp_all

lemma printed_strategy_return_append:
  "printed_strategy_return (xs @ ys) = printed_strategy_return xs @ printed_strategy_return ys"
  by (induction xs rule: printed_strategy_return.induct) simp_all

lemma has_data_nonempty: "has_data s \<Longrightarrow> s \<noteq> []"
  by (auto simp: has_data_def)

lemma clean_data_column_nonempty:
  assumes "c \<in> set (columns (clean_data d))"
  shows "snd c \<noteq> []"
proof -
  from assms obtain c0 where "has_data (snd c0)"
      and c: "c = (fst c0, bfill_series (ffill_series (snd c0)))"
    by (auto simp: clean_data_def bfill_def ffill_def dropna_all_def)
  then have "length (snd c) = length (snd c0)" "snd c0 \<noteq> []"
    by (simp_all add: bfill_series_length ffill_series_def ffill_from_length has_data_nonempty)
  then show ?thesis by auto
qed

lemma benchmark_series_nonempty:
  assumes "benchmark_series (normalized (clean_data d)) = Some b"
  shows "b \<noteq> []"
proof -
  from assms have "(''^NSEI'', b) \<in> set (columns (normalized (clean_data d)))"
    by (auto simp: benchmark_series_def dest: map_of_SomeD split: if_splits)
  then obtain c where c: "c \<in> set (columns (clean_data d))" and b: "b = normalize_series (snd c)"
    by auto
  from clean_data_column_nonempty [OF c] have "length b \<noteq> 0"
    unfolding b by (simp add: normalize_series_length)
  then show ?thesis by auto
qed

lemma strategy_series_length: "length (strategy_series tickers data nd) = nrows nd"
  by (simp add: strategy_series_def mean_axis1_def select_columns_def)

lemma simulate_strategy:
  assumes "0 < nrows (clean_data d)"
  shows "plotted_strategy (fst (simulate tickers (clean_data d) (normalized (clean_data d)))) =
           (if valid_tickers tickers (clean_data d) = [] then []
            else [strategy_series tickers (clean_data d) (normalized (clean_data d))])"
    and "printed_strategy_return (fst (simulate tickers (clean_data d) (normalized (clean_data d)))) =
           (if valid_tickers tickers (clean_data d) = [] then []
            else [fsub (last (strategy_series tickers (clean_data d) (normalized (clean_data d)))) (Fin 100)])"
proof -
  let ?data = "clean_data d"
  let ?s = "strategy_series tickers ?data (normalized ?data)"
  have "length ?s \<noteq> 0" using assms by (simp add: strategy_series_length)
  then have s: "?s \<noteq> []" by auto
  have b: "b \<noteq> []" if "benchmark_series (normalized ?data) = Some b" for b
    using that by (rule benchmark_series_nonempty)
  show "plotted_strategy (fst (simulate tickers ?data (normalized ?data))) =
           (if valid_tickers tickers ?data = [] then [] else [?s])"
    using s b
    by (auto simp: simulate_def Let_def iloc_last_def report_comparison_def plot_chart_def
          plotted_strategy_append split: option.splits)
  show "printed_strategy_return (fst (simulate tickers ?data (normalized ?data))) =
           (if valid_tickers tickers ?data = [] then [] else [fsub (last ?s) (Fin 100)])"
    using s b
    by (auto simp: simulate_def Let_def iloc_last_def report_comparison_def plot_chart_def
          printed_strategy_return_append split: option.splits)
qed

lemma clean_data_nrows [simp]: "nrows (clean_data d) = nrows d"
  by (simp add: clean_data_def bfill_def ffill_def dropna_all_def)

lemma field_frame_nrows [simp]: "nrows (field_frame n cols f) = n"
  by (simp add: field_frame_def)

lemma run_backtest_strategy:
  assumes "download (tickers @ [''^NSEI'']) = Fetched (Layered n cols)"
  shows "plotted_strategy (fst (run_backtest download tickers)) =
           (case strategy_of_table tickers n cols of None \<Rightarrow> [] | Some s \<Rightarrow> [s])"
    and "printed_strategy_return (fst (run_backtest download tickers)) =
           (case strategy_of_table tickers n cols of None \<Rightarrow> []
            | Some s \<Rightarrow> [fsub (last s) (Fin 100)])"
proof -
  let ?run = "fst (run_backtest download tickers)"
  have "plotted_strategy ?run = (case strategy_of_table tickers n cols of None \<Rightarrow> [] | Some s \<Rightarrow> [s])
      \<and> printed_strategy_return ?run =
           (case strategy_of_table tickers n cols of None \<Rightarrow> []
            | Some s \<Rightarrow> [fsub (last s) (Fin 100)])"
  proof (cases "tickers = [] \<or> raw_empty (Layered n cols)")
    case True
    then show ?thesis using assms
      by (auto simp: run_backtest_def strategy_of_table_def Let_def)
  next
    case False
    then have n: "0 < n" by simp
    obtain adv r where sel: "select_price_column (Layered n cols) = (adv, r)"
      by (cases "select_price_column (Layered n cols)")
    from select_price_column_advisory [OF sel]
    have adv: "plotted_strategy adv = []" "printed_strategy_return adv = []"
      by auto
    have run: "?run = [Print Banner, Print (TestingOn (take 5 tickers)), Download (tickers @ [''^NSEI''])]
         @ fst (process tickers (Layered n cols))"
      using run_backtest_fetched [of tickers download "Layered n cols"] False assms by simp
    show ?thesis
    proof (cases r)
      case None
      with sel False adv show ?thesis
        unfolding run
        by (simp add: process_layered strategy_of_table_def plotted_strategy_append
              printed_strategy_return_append)
    next
      case (Some f)
      let ?d = "field_frame n cols f"
      have rows: "0 < nrows (clean_data ?d)" using n by simp
      have nd: "normalize (clean_data ?d) = Inr (normalized (clean_data ?d))"
        using rows by (rule normalize_Inr)
      have p: "fst (process tickers (Layered n cols)) =
          adv @ fst (simulate tickers (clean_data ?d) (normalized (clean_data ?d)))"
        using sel Some nd by (simp add: process_layered)
      show ?thesis
        unfolding run p using sel Some False adv simulate_strategy [OF rows, of tickers]
        by (simp add: strategy_of_table_def plotted_strategy_append
              printed_strategy_return_append Let_def)
    qed
  qed
  then show "plotted_strategy ?run = (case strategy_of_table tickers n cols of None \<Rightarrow> [] | Some s \<Rightarrow> [s])"
    and "printed_strategy_return ?run =
           (case strategy_of_table tickers n cols of None \<Rightarrow> []
            | Some s \<Rightarrow> [fsub (last s) (Fin 100)])"
    by simp_all
qed

subsection \<open>Independence of the benchmark\<close>

lemma differ_labels:
  "differ_only_in_benchmark cols1 cols2 \<Longrightarrow> map fst cols1 = map fst cols2"
  unfolding differ_only_in_benchmark_def
  by (induction cols1 cols2 rule: list_all2_induct) simp_all

lemma differ_field_frame:
  "differ_only_in_benchmark cols1 cols2 \<Longrightarrow>
     without_benchmark (columns (field_frame n cols1 f)) = without_benchmark (columns (field_frame n cols2 f))"
  unfolding differ_only_in_benchmark_def
  by (induction cols1 cols2 rule: list_all2_induct) (auto simp: without_benchmark_def field_frame_def)

lemma without_benchmark_filter: "without_benchmark (filter P xs) = filter P (without_benchmark xs)"
  by (induction xs) (simp_all add: without_benchmark_def)

lemma without_benchmark_map: "without_benchmark (map (\<lambda>c. (fst c, g (snd c))) xs) = map (\<lambda>c. (fst c, g (snd c))) (without_benchmark xs)"
  by (induction xs) (simp_all add: without_benchmark_def)

lemma without_benchmark_clean_data:
  "without_benchmark (columns d1) = without_benchmark (columns d2) \<Longrightarrow> without_benchmark (columns (clean_data d1)) = without_benchmark (columns (clean_data d2))"
  by (simp add: clean_data_def bfill_def ffill_def dropna_all_def without_benchmark_map without_benchmark_filter del: map_map)

lemma without_benchmark_normalized:
  "without_benchmark (columns d1) = without_benchmark (columns d2) \<Longrightarrow> without_benchmark (columns (normalized d1)) = without_benchmark (columns (normalized d2))"
  by (simp add: without_benchmark_map)

lemma filter_label_without_benchmark:
  "t \<noteq> ''^NSEI'' \<Longrightarrow> filter (\<lambda>c. fst c = t) xs = filter (\<lambda>c. fst c = t) (without_benchmark xs)"
  by (induction xs) (auto simp: without_benchmark_def)

lemma label_member_without_benchmark:
  "t \<noteq> ''^NSEI'' \<Longrightarrow> t \<in> set (map fst xs) \<longleftrightarrow> t \<in> set (map fst (without_benchmark xs))"
  by (induction xs) (auto simp: without_benchmark_def)

lemma without_benchmark_valid_tickers:
  assumes "''^NSEI'' \<notin> set tickers" and "without_benchmark (columns d1) = without_benchmark (columns d2)"
  shows "valid_tickers tickers d1 = valid_tickers tickers d2"
proof -
  have "t \<in> set (column_labels d1) \<longleftrightarrow> t \<in> set (column_labels d2)" if "t \<in> set tickers" for t
  proof -
    from that assms(1) have "t \<noteq> ''^NSEI''" by auto
    then show ?thesis
      unfolding column_labels_def
      using label_member_without_benchmark [of t "columns d1"] label_member_without_benchmark [of t "columns d2"] assms(2)
      by simp
  qed
  then show ?thesis
    unfolding valid_tickers_def by (intro filter_cong refl)
qed

lemma without_benchmark_select_columns:
  assumes "''^NSEI'' \<notin> set labels" and "without_benchmark (columns d1) = without_benchmark (columns d2)"
  shows "columns (select_columns labels d1) = columns (select_columns labels d2)"
proof -
  have eq: "filter (\<lambda>c. fst c = t) (columns d1) = filter (\<lambda>c. fst c = t) (columns d2)"
    if "t \<in> set labels" for t
  proof -
    from that assms(1) have "t \<noteq> ''^NSEI''" by auto
    then show ?thesis
      using filter_label_without_benchmark [of t "columns d1"] filter_label_without_benchmark [of t "columns d2"] assms(2)
      by simp
  qed
  have "map (\<lambda>t. filter (\<lambda>c. fst c = t) (columns d1)) labels
      = map (\<lambda>t. filter (\<lambda>c. fst c = t) (columns d2)) labels"
    by (rule map_cong [OF refl]) (rule eq)
  then have "concat (map (\<lambda>t. filter (\<lambda>c. fst c = t) (columns d1)) labels)
      = concat (map (\<lambda>t. filter (\<lambda>c. fst c = t) (columns d2)) labels)"
    by (rule arg_cong)
  then show ?thesis by (simp add: select_columns_def)
qed

lemma without_benchmark_strategy_series:
  assumes "''^NSEI'' \<notin> set tickers" and "without_benchmark (columns d1) = without_benchmark (columns d2)"
      and "without_benchmark (columns nd1) = without_benchmark (columns nd2)" and "nrows nd1 = nrows nd2"
  shows "strategy_series tickers d1 nd1 = strategy_series tickers d2 nd2"
proof -
  have vt: "valid_tickers tickers d1 = valid_tickers tickers d2"
    using assms(1,2) by (rule without_benchmark_valid_tickers)
  have "''^NSEI'' \<notin> set (valid_tickers tickers d2)"
    using assms(1) by (simp add: valid_tickers_def)
  from without_benchmark_select_columns [OF this assms(3)]
  have "columns (select_columns (valid_tickers tickers d2) nd1)
      = columns (select_columns (valid_tickers tickers d2) nd2)" .
  then show ?thesis
    using assms(4) by (simp add: strategy_series_def mean_axis1_def row_at_def vt select_columns_def)
qed

lemma differ_strategy_of_table:
  assumes "''^NSEI'' \<notin> set tickers" and "differ_only_in_benchmark cols1 cols2"
  shows "strategy_of_table tickers n cols1 = strategy_of_table tickers n cols2"
proof -
  from differ_labels [OF assms(2)] have labels: "map fst cols1 = map fst cols2" .
  then have "map (\<lambda>c. fst (fst c)) cols1 = map (\<lambda>c. fst (fst c)) cols2"
    using map_map [of fst fst cols1] map_map [of fst fst cols2] by (simp add: comp_def)
  then have "set (map (\<lambda>c. fst (fst c)) cols1) = set (map (\<lambda>c. fst (fst c)) cols2)"
    by (rule arg_cong)
  then have sel: "select_price_column (Layered n cols1) = select_price_column (Layered n cols2)"
    by (simp add: select_price_column_def)
  from labels have empty: "raw_empty (Layered n cols1) = raw_empty (Layered n cols2)"
    by (cases cols1; cases cols2) simp_all
  have data: "without_benchmark (columns (clean_data (field_frame n cols1 f)))
      = without_benchmark (columns (clean_data (field_frame n cols2 f)))" for f
    using differ_field_frame [OF assms(2)] by (rule without_benchmark_clean_data)
  have vt: "valid_tickers tickers (clean_data (field_frame n cols1 f))
      = valid_tickers tickers (clean_data (field_frame n cols2 f))" for f
    using assms(1) data by (rule without_benchmark_valid_tickers)
  have st: "strategy_series tickers (clean_data (field_frame n cols1 f))
        (normalized (clean_data (field_frame n cols1 f)))
      = strategy_series tickers (clean_data (field_frame n cols2 f))
        (normalized (clean_data (field_frame n cols2 f)))" for f
    using assms(1) data without_benchmark_normalized [OF data] by (rule without_benchmark_strategy_series) simp
  show ?thesis
    by (simp add: strategy_of_table_def sel empty vt st Let_def del: raw_empty.simps
          split: option.splits)
qed

lemma scenario_alt_run:
  "run_backtest scenario_provider_alt [''AAA'', ''BBB'']
     = ([Print Banner, Print (TestingOn [''AAA'', ''BBB'']),
         Download [''AAA'', ''BBB'', ''^NSEI''],
         Print ResultsHeader, Print Timeframe, Print (StrategyReturn (Fin 15)),
         Print (BenchmarkReturn (Fin 30)), Print (Underperformance (Fin 15)),
         SaveFig [Fin 100, Fin 115] (Some [Fin 100, Fin 130]), Print ChartSaved], Returned)"
  by (simp add: pipeline_defs scenario_provider_alt_def scenario_cols_alt_def
        Let_def upt_conv_Cons)

text \<open>
  C10. When the ticker list does not name the benchmark symbol, the strategy series and
  the strategy return of a run do not depend on the benchmark's prices: two runs whose
  fetched tables have the same columns and differ only in the series under the benchmark
  symbol plot the same strategy series and print the same strategy return.
\<close>

theorem strategy_independent_of_benchmark:
  assumes "''^NSEI'' \<notin> set tickers"
      and "download1 (tickers @ [''^NSEI'']) = Fetched (Layered n cols1)"
      and "download2 (tickers @ [''^NSEI'']) = Fetched (Layered n cols2)"
      and "differ_only_in_benchmark cols1 cols2"
  shows "plotted_strategy (fst (run_backtest download1 tickers))
           = plotted_strategy (fst (run_backtest download2 tickers))
       \<and> printed_strategy_return (fst (run_backtest download1 tickers))
           = printed_strategy_return (fst (run_backtest download2 tickers))"
proof -
  have eq: "strategy_of_table tickers n cols1 = strategy_of_table tickers n cols2"
    using assms(1,4) by (rule differ_strategy_of_table)
  show ?thesis
    unfolding run_backtest_strategy [of download1 tickers n cols1, OF assms(2)]
      run_backtest_strategy [of download2 tickers n cols2, OF assms(3)] eq
    by (rule conjI) (rule refl)+
qed

theorem strategy_independent_of_benchmark_witness:
  "''^NSEI'' \<notin> set [''AAA'', ''BBB'']
   \<and> scenario_provider ([''AAA'', ''BBB''] @ [''^NSEI'']) = Fetched (Layered 2 scenario_cols)
   \<and> scenario_provider_alt ([''AAA'', ''BBB''] @ [''^NSEI'']) = Fetched (Layered 2 scenario_cols_alt)
   \<and> differ_only_in_benchmark scenario_cols scenario_cols_alt
   \<and> scenario_cols \<noteq> scenario_cols_alt
   \<and> plotted_strategy (fst (run_backtest scenario_provider [''AAA'', ''BBB'']))
           = plotted_strategy (fst (run_backtest scenario_provider_alt [''AAA'', ''BBB'']))
   \<and> printed_strategy_return (fst (run_backtest scenario_provider [''AAA'', ''BBB'']))
           = printed_strategy_return (fst (run_backtest scenario_provider_alt [''AAA'', ''BBB'']))
   \<and> plotted_strategy (fst (run_backtest scenario_provider [''AAA'', ''BBB''])) = [[Fin 100, Fin 115]]
   \<and> printed_strategy_return (fst (run_backtest scenario_provider [''AAA'', ''BBB''])) = [Fin 15]"
proof -
  have h1: "''^NSEI'' \<notin> set [''AAA'', ''BBB'']" by simp
  have h2: "scenario_provider ([''AAA'', ''BBB''] @ [''^NSEI'']) = Fetched (Layered 2 scenario_cols)"
    by (simp add: scenario_provider_def scenario_raw_def)
  have h3: "scenario_provider_alt ([''AAA'', ''BBB''] @ [''^NSEI'']) = Fetched (Layered 2 scenario_cols_alt)"
    by (simp add: scenario_provider_alt_def)
  have h4: "differ_only_in_benchmark scenario_cols scenario_cols_alt"
    by (simp add: differ_only_in_benchmark_def scenario_cols_def scenario_cols_alt_def)
  have ne: "scenario_cols \<noteq> scenario_cols_alt"
    by (simp add: scenario_cols_def scenario_cols_alt_def)
  note t = strategy_independent_of_benchmark [of "[''AAA'', ''BBB'']" scenario_provider 2
      scenario_cols scenario_provider_alt scenario_cols_alt, OF h1 h2 h3 h4]
  have p: "plotted_strategy (fst (run_backtest scenario_provider [''AAA'', ''BBB''])) = [[Fin 100, Fin 115]]"
    by (simp add: scenario_run)
  have r: "printed_strategy_return (fst (run_backtest scenario_provider [''AAA'', ''BBB''])) = [Fin 15]"
    by (simp add: scenario_run)
  show ?thesis
    by (intro conjI h1 h2 h3 h4 ne t [THEN conjunct1] t [THEN conjunct2] p r)
qed

subsection \<open>The strategy series as a mean\<close>

lemma filter_label_distinct:
  "distinct (map fst xs) \<Longrightarrow> map_of xs t = Some s \<Longrightarrow> filter (\<lambda>c. fst c = t) xs = [(t, s)]"
proof (induction xs)
  case Nil
  then show ?case by simp
next
  case (Cons c xs)
  show ?case
  proof (cases "fst c = t")
    case True
    with Cons.prems have c: "c = (t, s)" by (cases c) simp
    from Cons.prems(1) True have "t \<notin> fst ` set xs" by auto
    then have "filter (\<lambda>c. fst c = t) xs = []"
      by (auto simp: filter_empty_conv)
    with c show ?thesis by simp
  next
    case False
    with Cons show ?thesis by (cases c) auto
  qed
qed

lemma select_columns_distinct:
  assumes "distinct (map fst (columns d))"
      and "\<forall>t \<in> set labels. t \<in> set (map fst (columns d))"
  shows "columns (select_columns labels d) =
           map (\<lambda>t. (t, case map_of (columns d) t of None \<Rightarrow> [] | Some s \<Rightarrow> s)) labels"
  using assms(2)
proof (induction labels)
  case Nil
  then show ?case by (simp add: select_columns_def)
next
  case (Cons t ts)
  then have "t \<in> set (map fst (columns d))" by simp
  then obtain s where s: "map_of (columns d) t = Some s"
    using map_of_eq_None_iff [of "columns d" t] by auto
  from filter_label_distinct [OF assms(1) s] Cons s show ?case
    by (simp add: select_columns_def)
qed

lemma field_frame_distinct:
  "distinct (map fst cols) \<Longrightarrow> distinct (map fst (columns (field_frame n cols f)))"
proof (induction cols)
  case Nil
  then show ?case by (simp add: field_frame_def)
next
  case (Cons c cols)
  then have ih: "distinct (map fst (columns (field_frame n cols f)))" by simp
  show ?case
  proof (cases "fst (fst c) = f")
    case False
    with ih show ?thesis by (simp add: field_frame_def)
  next
    case True
    have "snd (fst c) \<notin> set (map fst (columns (field_frame n cols f)))"
    proof
      assume "snd (fst c) \<in> set (map fst (columns (field_frame n cols f)))"
      then obtain c' where c': "c' \<in> set cols" "fst (fst c') = f" "snd (fst c') = snd (fst c)"
        by (auto simp: field_frame_def)
      with True have "fst c' = fst c" by (simp add: prod_eq_iff)
      with c'(1) Cons.prems show False by (auto simp: image_iff)
    qed
    with ih True show ?thesis by (simp add: field_frame_def)
  qed
qed

lemma clean_data_labels:
  "map fst (columns (clean_data d)) = map fst (filter (\<lambda>c. has_data (snd c)) (columns d))"
  by (simp add: clean_data_def bfill_def ffill_def dropna_all_def comp_def)

lemma clean_data_distinct:
  "distinct (map fst (columns d)) \<Longrightarrow> distinct (map fst (columns (clean_data d)))"
  unfolding clean_data_labels by (rule distinct_map_filter)

lemma clean_data_wf: "wf_frame d \<Longrightarrow> wf_frame (clean_data d)"
  by (auto simp: wf_frame_def list_all_iff clean_data_def bfill_def ffill_def dropna_all_def
        bfill_series_length ffill_series_def ffill_from_length)

lemma field_frame_wf:
  "list_all (\<lambda>c. length (snd c) = n) cols \<Longrightarrow> wf_frame (field_frame n cols f)"
  by (auto simp: wf_frame_def list_all_iff field_frame_def)

lemma map_of_map_snd:
  "map_of (map (\<lambda>c. (fst c, g (snd c))) xs) t = map_option g (map_of xs t)"
  by (induction xs) simp_all

lemma nanmean_no_nan:
  "NaN \<notin> set xs \<Longrightarrow> xs \<noteq> [] \<Longrightarrow> nanmean xs = arith_mean xs"
proof -
  assume a: "NaN \<notin> set xs" "xs \<noteq> []"
  then have "filter (\<lambda>v. v \<noteq> NaN) xs = xs"
    by (auto simp: filter_id_conv)
  with a(2) show ?thesis by (simp add: nanmean_def arith_mean_def Let_def)
qed

lemma row_at_selected:
  assumes wf: "wf_frame data" and dist: "distinct (map fst (columns data))"
      and i: "i < nrows data"
  shows "row_at (select_columns (valid_tickers tickers data) (normalized data)) i
           = map (\<lambda>t. normalized_price data t i) (valid_tickers tickers data)"
proof -
  let ?vt = "valid_tickers tickers data"
  let ?nd = "normalized data"
  have labels: "map fst (columns ?nd) = map fst (columns data)"
    by (simp add: comp_def)
  have present: "\<forall>t \<in> set ?vt. t \<in> set (map fst (columns ?nd))"
    unfolding labels by (simp add: valid_tickers_def column_labels_def)
  have sel: "columns (select_columns ?vt ?nd) =
      map (\<lambda>t. (t, case map_of (columns ?nd) t of None \<Rightarrow> [] | Some s \<Rightarrow> s)) ?vt"
    using dist present unfolding labels [symmetric] by (rule select_columns_distinct)
  have entry: "(case map_of (columns ?nd) t of None \<Rightarrow> [] | Some s \<Rightarrow> s) ! i = normalized_price data t i"
    if t: "t \<in> set ?vt" for t
  proof -
    from t have "t \<in> set (map fst (columns data))"
      by (simp add: valid_tickers_def column_labels_def)
    then obtain s where s: "map_of (columns data) t = Some s"
      using map_of_eq_None_iff [of "columns data" t] by auto
    then have "(t, s) \<in> set (columns data)" by (rule map_of_SomeD)
    with wf have len: "length s = nrows data"
      by (auto simp: wf_frame_def list_all_iff)
    show ?thesis
      using s len i by (simp add: map_of_map_snd normalized_price_def normalize_series_nth)
  qed
  have "row_at (select_columns ?vt ?nd) i =
      map (\<lambda>t. (case map_of (columns ?nd) t of None \<Rightarrow> [] | Some s \<Rightarrow> s) ! i) ?vt"
    unfolding row_at_def sel by (simp add: comp_def)
  also have "\<dots> = map (\<lambda>t. normalized_price data t i) ?vt"
    by (rule map_cong [OF refl]) (rule entry)
  finally show ?thesis .
qed

text \<open>
  C5, amended. In every run that reaches the simulation on a table with one value per
  date in each column and distinct column labels, the strategy series has one value per
  date: the mean, over the candidate symbols present in the cleaned table (each as often
  as the ticker list names it), of their normalized prices at that date that are not
  \<open>NaN\<close>. It is the arithmetic mean over exactly those symbols whenever none of their
  normalized prices at that date is \<open>NaN\<close>. The strategy return printed is the last
  value of the series minus 100.
\<close>

theorem strategy_series_is_mean:
  assumes "tickers \<noteq> []"
      and "download (tickers @ [''^NSEI'']) = Fetched (Layered n cols)"
      and "\<not> raw_empty (Layered n cols)"
      and "select_price_column (Layered n cols) = (adv, Some f)"
      and "data = clean_data (field_frame n cols f)"
      and "valid_tickers tickers data \<noteq> []"
      and "list_all (\<lambda>c. length (snd c) = n) cols"
      and "distinct (map fst cols)"
  shows "\<exists>strat. plotted_strategy (fst (run_backtest download tickers)) = [strat]
       \<and> printed_strategy_return (fst (run_backtest download tickers)) = [fsub (last strat) (Fin 100)]
       \<and> length strat = n
       \<and> (\<forall>i<n. strat ! i =
             nanmean (map (\<lambda>t. normalized_price data t i) (valid_tickers tickers data)))
       \<and> (\<forall>i<n. NaN \<notin> set (map (\<lambda>t. normalized_price data t i) (valid_tickers tickers data))
             \<longrightarrow> strat ! i =
               arith_mean (map (\<lambda>t. normalized_price data t i) (valid_tickers tickers data)))"
proof -
  let ?vt = "valid_tickers tickers data"
  let ?strat = "strategy_series tickers data (normalized data)"
  have rows: "nrows data = n" unfolding assms(5) by simp
  have wf: "wf_frame data"
    unfolding assms(5) using assms(7) by (intro clean_data_wf field_frame_wf)
  have dist: "distinct (map fst (columns data))"
    unfolding assms(5) using assms(8) by (intro clean_data_distinct field_frame_distinct)
  have tab: "strategy_of_table tickers n cols = Some ?strat"
    using assms(1,3,4,6) unfolding assms(5)
    by (simp add: strategy_of_table_def Let_def del: raw_empty.simps)
  have p: "plotted_strategy (fst (run_backtest download tickers)) = [?strat]"
    unfolding run_backtest_strategy(1) [of download tickers n cols, OF assms(2)] tab by simp
  have r: "printed_strategy_return (fst (run_backtest download tickers)) = [fsub (last ?strat) (Fin 100)]"
    unfolding run_backtest_strategy(2) [of download tickers n cols, OF assms(2)] tab by simp
  have len: "length ?strat = n"
    by (simp add: strategy_series_length rows)
  have mean: "?strat ! i = nanmean (map (\<lambda>t. normalized_price data t i) ?vt)" if "i < n" for i
  proof -
    from that rows have i: "i < nrows data" by simp
    then have "?strat ! i = nanmean (row_at (select_columns ?vt (normalized data)) i)"
      by (simp add: strategy_series_nth)
    then show ?thesis
      unfolding row_at_selected [OF wf dist i] .
  qed
  have amean: "?strat ! i = arith_mean (map (\<lambda>t. normalized_price data t i) ?vt)"
    if "i < n" "NaN \<notin> set (map (\<lambda>t. normalized_price data t i) ?vt)" for i
  proof -
    have "map (\<lambda>t. normalized_price data t i) ?vt \<noteq> []"
      using assms(6) by simp
    from nanmean_no_nan [OF that(2) this] mean [OF that(1)] show ?thesis by simp
  qed
  from p r len mean amean show ?thesis by blast
qed

theorem strategy_series_is_mean_witness:
  "[''AAA'', ''BBB''] \<noteq> []
   \<and> scenario_provider ([''AAA'', ''BBB''] @ [''^NSEI'']) = Fetched (Layered 2 scenario_cols)
   \<and> \<not> raw_empty (Layered 2 scenario_cols)
   \<and> select_price_column (Layered 2 scenario_cols) = ([], Some ''Adj Close'')
   \<and> scenario_data = clean_data (field_frame 2 scenario_cols ''Adj Close'')
   \<and> valid_tickers [''AAA'', ''BBB''] scenario_data \<noteq> []
   \<and> list_all (\<lambda>c. length (snd c) = 2) scenario_cols
   \<and> distinct (map fst scenario_cols)
   \<and> (\<exists>strat. plotted_strategy (fst (run_backtest scenario_provider [''AAA'', ''BBB''])) = [strat]
       \<and> printed_strategy_return (fst (run_backtest scenario_provider [''AAA'', ''BBB'']))
            = [fsub (last strat) (Fin 100)]
       \<and> length strat = 2
       \<and> (\<forall>i<2. strat ! i =
             nanmean (map (\<lambda>t. normalized_price scenario_data t i)
               (valid_tickers [''AAA'', ''BBB''] scenario_data)))
       \<and> (\<forall>i<2. NaN \<notin> set (map (\<lambda>t. normalized_price scenario_data t i)
                 (valid_tickers [''AAA'', ''BBB''] scenario_data))
             \<longrightarrow> strat ! i =
               arith_mean (map (\<lambda>t. normalized_price scenario_data t i)
                 (valid_tickers [''AAA'', ''BBB''] scenario_data))))"
proof -
  have h1: "[''AAA'', ''BBB''] \<noteq> []" by simp
  have h2: "scenario_provider ([''AAA'', ''BBB''] @ [''^NSEI'']) = Fetched (Layered 2 scenario_cols)"
    by (simp add: scenario_provider_def scenario_raw_def)
  have h3: "\<not> raw_empty (Layered 2 scenario_cols)"
    by (simp add: scenario_cols_def)
  have h4: "select_price_column (Layered 2 scenario_cols) = ([], Some ''Adj Close'')"
    by (simp add: select_price_column_def scenario_cols_def)
  have h5: "scenario_data = clean_data (field_frame 2 scenario_cols ''Adj Close'')"
    by (rule scenario_data_def)
  have h6: "valid_tickers [''AAA'', ''BBB''] scenario_data \<noteq> []"
    by (simp add: scenario_data_eq valid_tickers_def column_labels_def)
  have h7: "list_all (\<lambda>c. length (snd c) = 2) scenario_cols"
    by (simp add: scenario_cols_def)
  have h8: "distinct (map fst scenario_cols)"
    by (simp add: scenario_cols_def)
  show ?thesis
    by (intro conjI h1 h2 h3 h4 h5 h6 h7 h8
          strategy_series_is_mean [of "[''AAA'', ''BBB'']" scenario_provider 2 scenario_cols "[]"
            "''Adj Close''" scenario_data, OF h1 h2 h3 h4 h5 h6 h7 h8])
qed

text \<open>
  The claim C5 as written, that the strategy series is at each date the arithmetic mean
  over exactly the candidate symbols present in the cleaned table, fails: with
  AAA = 0, 0 and BBB = 50, 60 both candidates are present, the normalized prices of AAA
  are \<open>NaN\<close>, and the run plots 100, 120, the mean over BBB alone, where the arithmetic
  mean over both is \<open>NaN\<close>.
\<close>

theorem strategy_series_mean_counterexample:
  "all_zero_data = \<lparr>nrows = 2, columns =
     [(''AAA'', [Fin 0, Fin 0]), (''BBB'', [Fin 50, Fin 60]), (''^NSEI'', [Fin 200, Fin 190])]\<rparr>
   \<and> valid_tickers [''AAA'', ''BBB''] all_zero_data = [''AAA'', ''BBB'']
   \<and> plotted_strategy (fst (run_backtest all_zero_provider [''AAA'', ''BBB''])) = [[Fin 100, Fin 120]]
   \<and> spec_strategy_series [''AAA'', ''BBB''] all_zero_data (normalized all_zero_data) = [NaN, NaN]"
proof -
  have v: "valid_tickers [''AAA'', ''BBB''] all_zero_data = [''AAA'', ''BBB'']"
    by (simp add: all_zero_data_eq valid_tickers_def column_labels_def)
  have p: "plotted_strategy (fst (run_backtest all_zero_provider [''AAA'', ''BBB''])) = [[Fin 100, Fin 120]]"
    by (simp add: all_zero_run)
  have s: "spec_strategy_series [''AAA'', ''BBB''] all_zero_data (normalized all_zero_data) = [NaN, NaN]"
    by (simp add: spec_strategy_series_def all_zero_data_eq valid_tickers_def column_labels_def
          normalized_def select_columns_def row_at_def arith_mean_def fsum_def
          normalize_series_def upt_conv_Cons)
  show ?thesis
    by (intro conjI all_zero_data_eq v p s)
qed

end
